theory Spec2Isabelle
  imports Main
begin

text \<open>
  The script \<^verbatim>\<open>sync.js\<close> of \<^verbatim>\<open>gh-issue-jira-sync\<close> mirrors GitHub issues into Jira: an issue
  without a label \<^verbatim>\<open>jira:KEY\<close> gets a Jira issue, then the label, then (when configured) a
  comment and the state closed. The functions below keep the names and the order of the
  script; the theorems after them are about these functions.
\<close>

section \<open>Strings\<close>

text \<open>
  A JavaScript string is modelled as a \<^typ>\<open>string\<close>, one \<^typ>\<open>char\<close> per code unit below 256.
  The character classes are the ones the regular expressions of \<^verbatim>\<open>sync.js\<close> use, read on
  that range: \<^verbatim>\<open>[A-Z]\<close>, \<^verbatim>\<open>\d\<close>, \<^verbatim>\<open>[A-Z0-9]\<close>, \<^verbatim>\<open>\w\<close> and \<^verbatim>\<open>\s\<close> (tab, line feed, vertical tab,
  form feed, carriage return, space, no-break space).
\<close>

definition is_upper :: "char \<Rightarrow> bool" where
  "is_upper c = (65 \<le> (of_char c :: nat) \<and> (of_char c :: nat) \<le> 90)"

definition is_lower :: "char \<Rightarrow> bool" where
  "is_lower c = (97 \<le> (of_char c :: nat) \<and> (of_char c :: nat) \<le> 122)"

definition is_digit :: "char \<Rightarrow> bool" where
  "is_digit c = (48 \<le> (of_char c :: nat) \<and> (of_char c :: nat) \<le> 57)"

definition is_upper_or_digit :: "char \<Rightarrow> bool" where
  "is_upper_or_digit c = (is_upper c \<or> is_digit c)"

definition is_word :: "char \<Rightarrow> bool" where
  "is_word c = (is_upper c \<or> is_lower c \<or> is_digit c \<or> c = CHR ''_'')"

definition is_space :: "char \<Rightarrow> bool" where
  "is_space c = ((of_char c :: nat) \<in> {9, 10, 11, 12, 13, 32, 160})"

text \<open>\<^verbatim>\<open>String.prototype.trim\<close>: white space removed at both ends.\<close>

definition trim :: "string \<Rightarrow> string" where
  "trim s = rev (dropWhile is_space (rev (dropWhile is_space s)))"

text \<open>
  A method call on a value that may be \<^verbatim>\<open>null\<close>: JavaScript raises a \<^verbatim>\<open>TypeError\<close> when the
  receiver is \<^verbatim>\<open>null\<close>. \<^verbatim>\<open>truthy\<close> is the test \<^verbatim>\<open>if (s)\<close> and \<^verbatim>\<open>s && ...\<close> make on a string
  or \<^verbatim>\<open>null\<close>: \<^verbatim>\<open>null\<close> and the empty string are false.
\<close>

datatype js_error = TypeError

definition on_string :: "string option \<Rightarrow> (string \<Rightarrow> 'a) \<Rightarrow> js_error + 'a" where
  "on_string recv f = (case recv of None \<Rightarrow> Inl TypeError | Some s \<Rightarrow> Inr (f s))"

definition truthy :: "string option \<Rightarrow> bool" where
  "truthy v = (case v of None \<Rightarrow> False | Some s \<Rightarrow> s \<noteq> [])"

section \<open>Label helpers\<close>

record label =
  name :: string

text \<open>
  The test \<^verbatim>\<open>/^jira:[A-Z][A-Z0-9]+-\d+$/.test(l.name)\<close> of \<^verbatim>\<open>getJiraKeyFromLabels\<close>.
  \<open>jira_key_re\<close> is the part after the marker: one upper-case letter, the longest run of
  upper-case letters and digits (not empty), a dash, and digits (not empty) up to the end.
  The run is followed by a dash, which is outside its class, so the greedy match is the
  only one.
\<close>

definition jira_key_re :: "string \<Rightarrow> bool" where
  "jira_key_re s =
     (case s of
        [] \<Rightarrow> False
      | c # r \<Rightarrow>
          is_upper c \<and> takeWhile is_upper_or_digit r \<noteq> [] \<and>
          (case dropWhile is_upper_or_digit r of
             [] \<Rightarrow> False
           | d # ds \<Rightarrow> d = CHR ''-'' \<and> ds \<noteq> [] \<and> list_all is_digit ds))"

definition sync_label_re :: "string \<Rightarrow> bool" where
  "sync_label_re s = (take 5 s = ''jira:'' \<and> jira_key_re (drop 5 s))"

text \<open>
  \<^verbatim>\<open>labels.find(...)\<close> gives the first label that passes the test; \<^verbatim>\<open>match.name.slice(5)\<close>
  strips the marker.
\<close>

definition getJiraKeyFromLabels :: "label list \<Rightarrow> string option" where
  "getJiraKeyFromLabels labels =
     (case find (\<lambda>l. sync_label_re (name l)) labels of
        None \<Rightarrow> None
      | Some m \<Rightarrow> Some (drop 5 (name m)))"

text \<open>The label name \<^verbatim>\<open>applyJiraLabel\<close> writes: the marker followed by the key.\<close>

definition jira_label_name :: "string \<Rightarrow> string" where
  "jira_label_name jiraKey = ''jira:'' @ jiraKey"

text \<open>
  The shape of a Jira key and of a sync label in the words of the specification: a project
  key of one upper-case letter followed by upper-case letters or digits, a dash, and a
  number of one or more digits; the label name is the marker followed by the key.
\<close>

definition key_shape :: "string \<Rightarrow> bool" where
  "key_shape k \<longleftrightarrow>
     (\<exists>c cs ds. k = c # cs @ ''-'' @ ds \<and> is_upper c \<and> cs \<noteq> [] \<and>
        list_all is_upper_or_digit cs \<and> ds \<noteq> [] \<and> list_all is_digit ds)"

definition sync_label_shape :: "string \<Rightarrow> bool" where
  "sync_label_shape nm \<longleftrightarrow> (\<exists>k. nm = ''jira:'' @ k \<and> key_shape k)"

definition no_sync_label :: "label list \<Rightarrow> bool" where
  "no_sync_label labels = list_all (\<lambda>l. \<not> sync_label_shape (name l)) labels"

section \<open>Mappings\<close>

text \<open>
  \<^verbatim>\<open>PRIORITY_MAP\<close> and \<^verbatim>\<open>TYPE_MAP\<close> are object literals, read with \<^verbatim>\<open>MAP[l.name]\<close>. Such a
  read finds the object's own entries and, for a name that is none of them, the members
  every object inherits from \<^verbatim>\<open>Object.prototype\<close>; any other name reads \<^verbatim>\<open>undefined\<close>.
  An inherited member is a function or an object, so it passes the test \<^verbatim>\<open>if (MAP[l.name])\<close>.
\<close>

datatype property = Own string | Inherited string

definition object_prototype_names :: "string list" where
  "object_prototype_names =
     [''constructor'', ''__defineGetter__'', ''__defineSetter__'', ''hasOwnProperty'',
      ''__lookupGetter__'', ''__lookupSetter__'', ''isPrototypeOf'',
      ''propertyIsEnumerable'', ''toString'', ''valueOf'', ''__proto__'',
      ''toLocaleString'']"

definition js_get :: "(string \<times> string) list \<Rightarrow> string \<Rightarrow> property option" where
  "js_get obj k =
     (case map_of obj k of
        Some v \<Rightarrow> Some (Own v)
      | None \<Rightarrow> if k \<in> set object_prototype_names then Some (Inherited k) else None)"

definition truthy_property :: "property option \<Rightarrow> bool" where
  "truthy_property p =
     (case p of None \<Rightarrow> False | Some (Own s) \<Rightarrow> s \<noteq> [] | Some (Inherited _) \<Rightarrow> True)"

definition PRIORITY_MAP :: "(string \<times> string) list" where
  "PRIORITY_MAP =
     [(''priority:critical'', ''Highest''), (''priority:high'', ''High''),
      (''priority:medium'', ''Medium''), (''priority:low'', ''Low'')]"

definition TYPE_MAP :: "(string \<times> string) list" where
  "TYPE_MAP =
     [(''security'', ''Bug''), (''bug'', ''Bug''), (''tech-debt'', ''Task''),
      (''enhancement'', ''Story''), (''feature'', ''Story'')]"

section \<open>Environment\<close>

text \<open>
  The object \<^verbatim>\<open>ENV\<close>, with the fields the synchronisation reads, and \<^verbatim>\<open>GITHUB_OUTPUT\<close>,
  which \<^verbatim>\<open>syncIssue\<close> reads from the process environment.
\<close>

record env =
  JIRA_BASE_URL :: string
  JIRA_PROJECT_KEY :: string
  DRY_RUN :: bool
  CLOSE_AFTER_SYNC :: bool
  JIRA_ISSUE_TYPE_DEFAULT :: string
  GITHUB_OUTPUT :: "string option"

fun derivePriority :: "label list \<Rightarrow> property" where
  "derivePriority [] = Own ''Medium''"
| "derivePriority (l # ls) =
     (case js_get PRIORITY_MAP (name l) of
        None \<Rightarrow> derivePriority ls
      | Some p \<Rightarrow> if truthy_property (Some p) then p else derivePriority ls)"

fun deriveIssueType :: "env \<Rightarrow> label list \<Rightarrow> property" where
  "deriveIssueType e [] = Own (JIRA_ISSUE_TYPE_DEFAULT e)"
| "deriveIssueType e (l # ls) =
     (case js_get TYPE_MAP (name l) of
        None \<Rightarrow> deriveIssueType e ls
      | Some p \<Rightarrow> if truthy_property (Some p) then p else deriveIssueType e ls)"

section \<open>Summary\<close>

text \<open>
  \<^verbatim>\<open>title.replace(/^\[[^\]]*\]\s*/g, '')\<close>: the pattern is anchored at the start of the
  title (\<^verbatim>\<open>^\<close> without the \<^verbatim>\<open>m\<close> flag), so the global flag finds no second match: one
  bracket group at the start and the white space after it are removed, when the group is
  closed. Then \<^verbatim>\<open>.trim().substring(0, 255)\<close>.
\<close>

definition strip_bracket_prefix :: "string \<Rightarrow> string" where
  "strip_bracket_prefix t =
     (case t of
        [] \<Rightarrow> t
      | c # r \<Rightarrow>
          if c = CHR ''[''
          then (case dropWhile (\<lambda>x. x \<noteq> CHR '']'') r of
                  [] \<Rightarrow> t
                | _ # after \<Rightarrow> dropWhile is_space after)
          else t)"

definition jira_summary :: "string \<Rightarrow> string" where
  "jira_summary title = take 255 (trim (strip_bracket_prefix title))"

section \<open>Issues and body parsing\<close>

text \<open>
  An issue as the GitHub API returns it. \<open>body\<close> is \<^verbatim>\<open>null\<close> (\<open>None\<close>) for an issue without a
  description; \<open>pull_request\<close> tells whether the entry carries the \<^verbatim>\<open>pull_request\<close> member.
\<close>

record issue =
  number :: nat
  title :: string
  body :: "string option"
  state :: string
  labels :: "label list"
  html_url :: string
  pull_request :: bool

record meta =
  todoText :: "string option"
  codeBlock :: "string option"
  "file" :: "string option"
  line :: "string option"
  branch :: "string option"
  commit :: "string option"
  introduced :: "string option"
  author :: "string option"

text \<open>
  \<^verbatim>\<open>parseBody\<close> searches the body with three regular expressions: the quoted line under the
  heading \<^verbatim>\<open>TODO Comment\<close> (\<^verbatim>\<open>/##\s*TODO Comment\s*\n+>\s*(.+)/\<close>), the fenced block under the
  heading \<^verbatim>\<open>Code Context\<close> (\<^verbatim>\<open>/##\s*Code Context\s*\n+(FENCE[\s\S]*?FENCE)/\<close>, where
  \<^verbatim>\<open>FENCE\<close> stands for three backticks), and the cell next to a field name in the table
  (a bar, the name, a bar, and the cell up to the next bar, without the backticks around
  it). What the host's regular-expression engine finds is a parameter, \<open>rx\<close>: the first
  capture group of the first match, or \<open>None\<close>; none of the statements below depends on
  it. The default \<^verbatim>\<open>body = ''\<close> covers \<^verbatim>\<open>undefined\<close> only, so a \<^verbatim>\<open>null\<close> body reaches
  \<^verbatim>\<open>body.match\<close>.
\<close>

datatype body_pattern = TodoComment | CodeContext | Field string

type_synonym regex_engine = "body_pattern \<Rightarrow> string \<Rightarrow> string option"

definition parseBody :: "regex_engine \<Rightarrow> string option \<Rightarrow> js_error + meta" where
  "parseBody rx b =
     on_string b (\<lambda>s.
       \<lparr>todoText = map_option trim (rx TodoComment s),
        codeBlock = rx CodeContext s,
        file = map_option trim (rx (Field ''File'') s),
        line = map_option trim (rx (Field ''Line'') s),
        branch = map_option trim (rx (Field ''Branch'') s),
        commit = map_option trim (rx (Field ''Commit'') s),
        introduced = map_option trim (rx (Field ''Introduced'') s),
        author = map_option trim (rx (Field ''Author'') s)\<rparr>)"

section \<open>Jira ADF description builder\<close>

datatype mark = Em | Strong

datatype node =
    Text string "mark list"
  | Paragraph "node list"
  | Blockquote "node list"
  | Heading nat "node list"
  | Table "node list"
  | TableRow "node list"
  | TableHeader "node list"
  | TableCell "node list"
  | CodeBlock string "node list"

record adf_doc =
  version :: nat
  content :: "node list"

text \<open>\<^verbatim>\<open>String(text ?? '')\<close>: a missing cell is the empty string.\<close>

definition adfTableRow :: "string option list \<Rightarrow> bool \<Rightarrow> node" where
  "adfTableRow cells header =
     TableRow (map (\<lambda>cell.
       (if header then TableHeader else TableCell)
         [Paragraph [Text (case cell of None \<Rightarrow> [] | Some s \<Rightarrow> s) []]]) cells)"

text \<open>\<^verbatim>\<open>a || b\<close> on a string or \<^verbatim>\<open>null\<close>, and \<^verbatim>\<open>v && [k, v]\<close> followed by \<^verbatim>\<open>.filter(Boolean)\<close>.\<close>

definition or_else :: "string option \<Rightarrow> string \<Rightarrow> string" where
  "or_else v d = (case v of None \<Rightarrow> d | Some s \<Rightarrow> if s = [] then d else s)"

definition and_row :: "string option \<Rightarrow> string \<Rightarrow> (string \<times> string) option" where
  "and_row v k = (case v of None \<Rightarrow> None | Some s \<Rightarrow> if s = [] then None else Some (k, s))"

definition filter_Boolean :: "'a option list \<Rightarrow> 'a list" where
  "filter_Boolean xs = concat (map (\<lambda>x. case x of None \<Rightarrow> [] | Some y \<Rightarrow> [y]) xs)"

text \<open>
  The three backticks of a code fence, and the expressions of the code-block branch:
  the language is the first capture of fence followed by \<^verbatim>\<open>(\w+)\<close> anywhere in the block;
  the code is the block without \<^verbatim>\<open>^\<close>fence\<^verbatim>\<open>\w*\n?\<close> and then without \<^verbatim>\<open>\n?\<close>fence\<^verbatim>\<open>$\<close>.
\<close>

definition fence :: string where
  "fence = [CHR 0x60, CHR 0x60, CHR 0x60]"

fun fence_lang :: "string \<Rightarrow> string option" where
  "fence_lang [] = None"
| "fence_lang (c # cs) =
     (if take 3 (c # cs) = fence \<and> takeWhile is_word (drop 3 (c # cs)) \<noteq> []
      then Some (takeWhile is_word (drop 3 (c # cs)))
      else fence_lang cs)"

definition strip_open_fence :: "string \<Rightarrow> string" where
  "strip_open_fence s =
     (if take 3 s = fence
      then (case dropWhile is_word (drop 3 s) of
              [] \<Rightarrow> []
            | c # r \<Rightarrow> if c = CHR 0x0A then r else c # r)
      else s)"

definition strip_close_fence :: "string \<Rightarrow> string" where
  "strip_close_fence s =
     (if 4 \<le> length s \<and> drop (length s - 4) s = CHR 0x0A # fence then take (length s - 4) s
      else if 3 \<le> length s \<and> drop (length s - 3) s = fence then take (length s - 3) s
      else s)"

definition metaRows :: "issue \<Rightarrow> meta \<Rightarrow> (string \<times> string) list" where
  "metaRows i m =
     filter_Boolean
       [and_row (file m) ''File'',
        and_row (line m) ''Line'',
        and_row (branch m) ''Branch'',
        and_row (commit m) ''Commit'',
        and_row (introduced m) ''Introduced'',
        and_row (author m) ''Author'',
        Some (''GitHub Issue'', html_url i)]"

definition provenance :: node where
  "provenance =
     Paragraph
       [Text ''Auto-migrated from GitHub Issues by '' [Em],
        Text ''gh-issue-jira-sync'' [Em, Strong],
        Text ''.'' [Em]]"

definition buildDescription :: "issue \<Rightarrow> meta \<Rightarrow> js_error + adf_doc" where
  "buildDescription i m =
     (let base =
            [provenance,
             Blockquote [Paragraph [Text (or_else (todoText m) (title i)) []]],
             Heading 3 [Text ''Details'' []],
             Table (adfTableRow [Some ''Field'', Some ''Value''] True #
                    map (\<lambda>(k, v). adfTableRow [Some k, Some v] False) (metaRows i m))]
      in if truthy (codeBlock m)
         then (case on_string (codeBlock m) (\<lambda>cb.
                      [Heading 3 [Text ''Code Context'' []],
                       CodeBlock (or_else (fence_lang cb) ''text'')
                         [Text (strip_close_fence (strip_open_fence cb)) []]]) of
                 Inl err \<Rightarrow> Inl err
               | Inr block \<Rightarrow> Inr \<lparr>version = 1, content = base @ block\<rparr>)
         else Inr \<lparr>version = 1, content = base\<rparr>)"

text \<open>The rows of the tables of a document, for the statements about the Details table.\<close>

fun tables :: "node list \<Rightarrow> node list list" where
  "tables [] = []"
| "tables (Table rows # ns) = rows # tables ns"
| "tables (_ # ns) = tables ns"

section \<open>The two trackers\<close>

record payload =
  project_key :: string
  summary :: string
  description :: adf_doc
  issuetype :: property
  priority :: property
  jira_labels :: "string list"

text \<open>
  The calls the script makes on the GitHub client (\<^verbatim>\<open>octokit.issues.*\<close>) and on the Jira REST
  interface (\<^verbatim>\<open>jira(method, path, body)\<close>), with their arguments.
\<close>

datatype call =
    IssuesGet nat
  | IssuesListForRepo nat
  | IssuesGetLabel string
  | IssuesCreateLabel string string string
  | IssuesAddLabels nat "string list"
  | IssuesCreateComment nat string
  | IssuesUpdate nat string string
  | JiraRequest string string payload

text \<open>
  What the script can raise: an error of the language, a call that was rejected, and the
  file-system error of \<^verbatim>\<open>fs.appendFileSync\<close>.
\<close>

datatype error = Thrown js_error | RequestFailed call | AppendFailed

text \<open>The lines the script logs, one constructor for each \<^verbatim>\<open>log(...)\<close> of the functions below.\<close>

datatype log_line =
    LogIssue nat
  | LogAlreadySynced string
  | LogIssueClosed
  | LogCreating property property string
  | LogDryRunJira
  | LogPayload payload
  | LogCreated string
  | LogApplyingLabel string nat
  | LogDryRunLabel
  | LogClosing nat string
  | LogDryRunClose
  | LogDone string
  | LogBulkStart
  | LogBulkFailed nat error

text \<open>
  The state outside the script. GitHub: the issues by number, the labels the repository
  defines, the comments, and \<open>listing\<close>, the pages the listing of open issues answers with
  (page 1 first; a page past the last one is empty). Jira: the issues created so far, and
  \<open>jira_keys\<close>, the key it gives to its next issue. \<open>faults\<close> says which of the coming calls
  fail in transport or at the server (\<open>True\<close>: the next call fails); when it is used up,
  calls succeed. \<open>calls\<close> records every call made, in order, with whether it succeeded;
  \<open>console\<close> the lines logged; \<open>output_file\<close> the lines appended to the file
  \<^verbatim>\<open>GITHUB_OUTPUT\<close> names, and \<open>output_writable\<close> whether that file can be opened for
  appending; \<open>now\<close> the clock; \<open>slept\<close> the milliseconds waited.
\<close>

record world =
  issues :: "nat \<Rightarrow> issue option"
  repo_labels :: "string list"
  comments :: "(nat \<times> string) list"
  listing :: "issue list list"
  jira_created :: "payload list"
  jira_keys :: "nat \<Rightarrow> string"
  faults :: "bool list"
  calls :: "(call \<times> bool) list"
  console :: "log_line list"
  output_file :: "string list"
  output_writable :: bool
  now :: string
  slept :: nat

text \<open>
  One call: \<open>answer\<close> is what the service would answer (\<open>None\<close>: it rejects the call, as
  for an issue or a label that does not exist); on success \<open>effect\<close> changes the state.
  \<open>up fs\<close> says that the faults \<open>fs\<close> let the next call through.
\<close>

definition up :: "bool list \<Rightarrow> bool" where
  "up fs = (case fs of [] \<Rightarrow> True | f # _ \<Rightarrow> \<not> f)"

definition respond ::
    "call \<Rightarrow> 'a option \<Rightarrow> (world \<Rightarrow> world) \<Rightarrow> world \<Rightarrow> (error + 'a) \<times> world" where
  "respond c answer effect w =
     (let w' = w\<lparr>faults := tl (faults w)\<rparr>
      in case answer of
           None \<Rightarrow> (Inl (RequestFailed c), w'\<lparr>calls := calls w @ [(c, False)]\<rparr>)
         | Some a \<Rightarrow>
             if up (faults w) then (Inr a, effect (w'\<lparr>calls := calls w @ [(c, True)]\<rparr>))
             else (Inl (RequestFailed c), w'\<lparr>calls := calls w @ [(c, False)]\<rparr>))"

definition octokit_issues_get :: "nat \<Rightarrow> world \<Rightarrow> (error + issue) \<times> world" where
  "octokit_issues_get n w = respond (IssuesGet n) (issues w n) (\<lambda>v. v) w"

definition octokit_issues_listForRepo :: "nat \<Rightarrow> world \<Rightarrow> (error + issue list) \<times> world" where
  "octokit_issues_listForRepo page w =
     respond (IssuesListForRepo page)
       (Some (if 1 \<le> page \<and> page \<le> length (listing w) then listing w ! (page - 1) else []))
       (\<lambda>v. v) w"

definition octokit_issues_getLabel :: "string \<Rightarrow> world \<Rightarrow> (error + unit) \<times> world" where
  "octokit_issues_getLabel nm w =
     respond (IssuesGetLabel nm) (if nm \<in> set (repo_labels w) then Some () else None) (\<lambda>v. v) w"

definition octokit_issues_createLabel ::
    "string \<Rightarrow> string \<Rightarrow> string \<Rightarrow> world \<Rightarrow> (error + unit) \<times> world" where
  "octokit_issues_createLabel nm color descr w =
     respond (IssuesCreateLabel nm color descr)
       (if nm \<in> set (repo_labels w) then None else Some ())
       (\<lambda>v. v\<lparr>repo_labels := repo_labels v @ [nm]\<rparr>) w"

definition add_labels :: "string list \<Rightarrow> issue \<Rightarrow> issue" where
  "add_labels names i =
     i\<lparr>labels := labels i @
          map (\<lambda>nm. \<lparr>name = nm\<rparr>) (filter (\<lambda>nm. nm \<notin> set (map name (labels i))) names)\<rparr>"

definition octokit_issues_addLabels :: "nat \<Rightarrow> string list \<Rightarrow> world \<Rightarrow> (error + unit) \<times> world" where
  "octokit_issues_addLabels n names w =
     respond (IssuesAddLabels n names) (map_option (\<lambda>_. ()) (issues w n))
       (\<lambda>v. v\<lparr>issues := (issues v)(n := map_option (add_labels names) (issues v n))\<rparr>) w"

definition octokit_issues_createComment :: "nat \<Rightarrow> string \<Rightarrow> world \<Rightarrow> (error + unit) \<times> world" where
  "octokit_issues_createComment n txt w =
     respond (IssuesCreateComment n txt) (map_option (\<lambda>_. ()) (issues w n))
       (\<lambda>v. v\<lparr>comments := comments v @ [(n, txt)]\<rparr>) w"

definition octokit_issues_update :: "nat \<Rightarrow> string \<Rightarrow> string \<Rightarrow> world \<Rightarrow> (error + unit) \<times> world" where
  "octokit_issues_update n st why w =
     respond (IssuesUpdate n st why) (map_option (\<lambda>_. ()) (issues w n))
       (\<lambda>v. v\<lparr>issues := (issues v)(n := map_option (\<lambda>i. i\<lparr>state := st\<rparr>) (issues v n))\<rparr>) w"

text \<open>
  \<^verbatim>\<open>jira(method, path, body)\<close>: a response that is not \<^verbatim>\<open>ok\<close> is thrown; the answer to the
  create call carries the key of the new issue.
\<close>

definition jira :: "string \<Rightarrow> string \<Rightarrow> payload \<Rightarrow> world \<Rightarrow> (error + string) \<times> world" where
  "jira meth path p w =
     respond (JiraRequest meth path p) (Some (jira_keys w (length (jira_created w))))
       (\<lambda>v. v\<lparr>jira_created := jira_created v @ [p]\<rparr>) w"

definition log :: "log_line \<Rightarrow> world \<Rightarrow> world" where
  "log l w = w\<lparr>console := console w @ [l]\<rparr>"

text \<open>\<^verbatim>\<open>await\<close>: a rejected call raises, and the rest of the function is not run.\<close>

definition await ::
    "(world \<Rightarrow> (error + 'a) \<times> world) \<Rightarrow> ('a \<Rightarrow> world \<Rightarrow> (error + 'b) \<times> world) \<Rightarrow>
     world \<Rightarrow> (error + 'b) \<times> world" where
  "await m f w = (case m w of (Inl err, w') \<Rightarrow> (Inl err, w') | (Inr x, w') \<Rightarrow> f x w')"

section \<open>Jira API\<close>

definition createJiraIssue ::
    "regex_engine \<Rightarrow> env \<Rightarrow> issue \<Rightarrow> world \<Rightarrow> (error + string) \<times> world" where
  "createJiraIssue rx e i w =
     (case parseBody rx (body i) of
        Inl err \<Rightarrow> (Inl (Thrown err), w)
      | Inr m \<Rightarrow>
          (case buildDescription i m of
             Inl err \<Rightarrow> (Inl (Thrown err), w)
           | Inr d \<Rightarrow>
               (let p = \<lparr>project_key = JIRA_PROJECT_KEY e,
                         summary = jira_summary (title i),
                         description = d,
                         issuetype = deriveIssueType e (labels i),
                         priority = derivePriority (labels i),
                         jira_labels = [''auto-migrated'', ''gh-issue-jira-sync'']\<rparr>;
                    w1 = log (LogCreating (deriveIssueType e (labels i))
                                (derivePriority (labels i)) (jira_summary (title i))) w
                in if DRY_RUN e
                   then (Inr (JIRA_PROJECT_KEY e @ ''-DRY''), log (LogPayload p) (log LogDryRunJira w1))
                   else jira ''POST'' ''/issue'' p w1)))"

section \<open>GitHub operations\<close>

text \<open>The bare \<^verbatim>\<open>catch\<close> of \<^verbatim>\<open>ensureLabel\<close> answers every failure of the lookup by creating the label.\<close>

definition ensureLabel ::
    "string \<Rightarrow> string \<Rightarrow> string \<Rightarrow> world \<Rightarrow> (error + unit) \<times> world" where
  "ensureLabel nm color descr w =
     (case octokit_issues_getLabel nm w of
        (Inr u, w') \<Rightarrow> (Inr u, w')
      | (Inl _, w') \<Rightarrow> octokit_issues_createLabel nm color descr w')"

definition applyJiraLabel :: "env \<Rightarrow> nat \<Rightarrow> string \<Rightarrow> world \<Rightarrow> (error + unit) \<times> world" where
  "applyJiraLabel e issueNumber k w =
     (let nm = jira_label_name k;
          w1 = log (LogApplyingLabel nm issueNumber) w
      in if DRY_RUN e then (Inr (), log LogDryRunLabel w1)
         else await (ensureLabel nm ''0075ca'' (''Synced to Jira as '' @ k))
                (\<lambda>_. octokit_issues_addLabels issueNumber [nm]) w1)"

text \<open>
  The comment of \<^verbatim>\<open>closeIssue\<close>, its lines joined by line feeds. The check mark of the
  heading (U+2705) is written as the three bytes of its UTF-8 encoding; the time stamp is
  the clock's.
\<close>

fun join_lines :: "string list \<Rightarrow> string" where
  "join_lines [] = []"
| "join_lines [l] = l"
| "join_lines (l # ls) = l @ [CHR 0x0A] @ join_lines ls"

definition close_comment :: "env \<Rightarrow> string \<Rightarrow> string \<Rightarrow> string" where
  "close_comment e k stamp =
     (let jiraUrl = JIRA_BASE_URL e @ ''/browse/'' @ k;
          link = ''['' @ k @ '']('' @ jiraUrl @ '')''
      in join_lines
           [''## '' @ [CHR 0xE2, CHR 0x9C, CHR 0x85] @ '' Synced to Jira'',
            [],
            ''This issue has been automatically migrated to Jira as **'' @ link @ ''**.'',
            [],
            ''| | |'',
            ''|---|---|'',
            ''| **Jira ticket** | '' @ link @ '' |'',
            ''| **Project** | '' @ [CHR 0x60] @ JIRA_PROJECT_KEY e @ [CHR 0x60] @ '' |'',
            ''| **Synced** | '' @ stamp @ '' |'',
            [],
            ''_This GitHub issue is now closed. All tracking continues in Jira._''])"

definition closeIssue :: "env \<Rightarrow> nat \<Rightarrow> string \<Rightarrow> world \<Rightarrow> (error + unit) \<times> world" where
  "closeIssue e issueNumber k w =
     (let txt = close_comment e k (now w);
          w1 = log (LogClosing issueNumber k) w
      in if DRY_RUN e then (Inr (), log LogDryRunClose w1)
         else await (octokit_issues_createComment issueNumber txt)
                (\<lambda>_. octokit_issues_update issueNumber ''closed'' ''not_planned'') w1)"

section \<open>Core sync\<close>

record sync_result =
  status :: string
  reason :: "string option"
  jiraKey :: "string option"

text \<open>
  The output for the workflow: when \<^verbatim>\<open>GITHUB_OUTPUT\<close> is set, \<^verbatim>\<open>fs.appendFileSync\<close> appends the
  line of the key to the file it names, and raises when the file cannot be opened.
\<close>

definition write_output :: "env \<Rightarrow> string \<Rightarrow> world \<Rightarrow> (error + unit) \<times> world" where
  "write_output e k w =
     (if truthy (GITHUB_OUTPUT e)
      then if output_writable w
           then (Inr (), w\<lparr>output_file := output_file w @ [''jira_key='' @ k]\<rparr>)
           else (Inl AppendFailed, w)
      else (Inr (), w))"

definition syncIssue ::
    "regex_engine \<Rightarrow> env \<Rightarrow> nat \<Rightarrow> world \<Rightarrow> (error + sync_result) \<times> world" where
  "syncIssue rx e issueNumber w =
     await (octokit_issues_get issueNumber)
       (\<lambda>i w1.
          if truthy (getJiraKeyFromLabels (labels i))
          then (Inr \<lparr>status = ''skipped'', reason = Some ''already_synced'',
                      jiraKey = getJiraKeyFromLabels (labels i)\<rparr>,
                log (LogAlreadySynced (or_else (getJiraKeyFromLabels (labels i)) [])) w1)
          else if state i = ''closed''
          then (Inr \<lparr>status = ''skipped'', reason = Some ''already_closed'', jiraKey = None\<rparr>,
                log LogIssueClosed w1)
          else await (createJiraIssue rx e i)
                 (\<lambda>k w2.
                    await (applyJiraLabel e issueNumber k)
                      (\<lambda>_.
                         await (if CLOSE_AFTER_SYNC e then closeIssue e issueNumber k
                                else (\<lambda>w3. (Inr (), w3)))
                           (\<lambda>_.
                              await (write_output e k)
                                (\<lambda>_ w5.
                                   (Inr \<lparr>status = ''synced'', reason = None, jiraKey = Some k\<rparr>,
                                    log (LogDone k) w5))))
                      (log (LogCreated k) w2))
                 w1)
       (log (LogIssue issueNumber) w)"

record sync_summary =
  synced :: nat
  skipped :: nat
  failed :: nat

text \<open>The inner loop of \<^verbatim>\<open>bulkSync\<close>, over the issues of one page.\<close>

fun bulkSync_page ::
    "regex_engine \<Rightarrow> env \<Rightarrow> issue list \<Rightarrow> sync_summary \<Rightarrow> world \<Rightarrow> sync_summary \<times> world" where
  "bulkSync_page rx e [] s w = (s, w)"
| "bulkSync_page rx e (i # rest) s w =
     (if pull_request i then bulkSync_page rx e rest s w
      else (case syncIssue rx e (number i) w of
              (Inr result, w') \<Rightarrow>
                if status result = ''synced''
                then bulkSync_page rx e rest (s\<lparr>synced := synced s + 1\<rparr>)
                       (w'\<lparr>slept := slept w' + 400\<rparr>)
                else bulkSync_page rx e rest (s\<lparr>skipped := skipped s + 1\<rparr>) w'
            | (Inl err, w') \<Rightarrow>
                bulkSync_page rx e rest (s\<lparr>failed := failed s + 1\<rparr>)
                  (log (LogBulkFailed (number i) err) w')))"

text \<open>
  The loop over the pages: \<^verbatim>\<open>for (let page = 1; ; page++)\<close>, left at an empty page or after
  a page of fewer than 100 entries. A failure of the listing call is not caught. The loop
  ends because the listing has finitely many pages and no call of the script changes it.
\<close>

function bulkSync_pages ::
    "regex_engine \<Rightarrow> env \<Rightarrow> nat \<Rightarrow> sync_summary \<Rightarrow> world \<Rightarrow> (error + sync_summary) \<times> world" where
  "bulkSync_pages rx e page s w =
     (case octokit_issues_listForRepo page w of
        (Inl err, w1) \<Rightarrow> (Inl err, w1)
      | (Inr found, w1) \<Rightarrow>
          if found = [] then (Inr s, w1)
          else (case bulkSync_page rx e found s w1 of
                  (s', w2) \<Rightarrow>
                    if length found < 100 then (Inr s', w2)
                    else bulkSync_pages rx e (page + 1) s' w2))"
  by pat_completeness auto
termination
proof (relation "measure (\<lambda>(rx, e, page, s, w). Suc (length (listing w)) - page)")
  show "wf (measure (\<lambda>(rx, e, page, s, w). Suc (length (listing w)) - page))"
    by simp
next
  fix rx :: regex_engine and e :: env and page :: nat and s :: sync_summary and w :: world
    and r :: "error + issue list" and w1 :: world and found :: "issue list"
    and s' :: sync_summary and w2 :: world
  assume a: "(r, w1) = octokit_issues_listForRepo page w" "r = Inr found" "found \<noteq> []"
    "(s', w2) = bulkSync_page rx e found s w1" "\<not> length found < 100"
  have sync: "\<And>n v. listing (snd (syncIssue rx e n v)) = listing v"
    by (simp add: respond_def octokit_issues_get_def octokit_issues_getLabel_def
        octokit_issues_createLabel_def octokit_issues_addLabels_def octokit_issues_createComment_def octokit_issues_update_def
        jira_def log_def await_def createJiraIssue_def ensureLabel_def applyJiraLabel_def
        closeIssue_def write_output_def syncIssue_def Let_def
        split: sum.splits option.splits prod.splits list.splits if_splits)
  have page: "\<And>s v. listing (snd (bulkSync_page rx e found s v)) = listing v"
  proof (induction found)
    case Nil
    show ?case by simp
  next
    case (Cons i rest)
    show ?case
      using sync [of "number i" v]
      by (auto simp: Cons.IH log_def split: prod.splits sum.splits)
  qed
  from a have l: "listing w1 = listing w" and p: "1 \<le> page \<and> page \<le> length (listing w)"
    by (auto simp: octokit_issues_listForRepo_def respond_def Let_def split: if_splits)
  from a page [of s w1] have "listing w2 = listing w1"
    by (metis snd_conv)
  with l p show "((rx, e, page + 1, s', w2), rx, e, page, s, w)
      \<in> measure (\<lambda>(rx, e, page, s, w). Suc (length (listing w)) - page)"
    by (simp add: Suc_diff_le)
qed

declare bulkSync_pages.simps [simp del]

definition bulkSync :: "regex_engine \<Rightarrow> env \<Rightarrow> world \<Rightarrow> (error + sync_summary) \<times> world" where
  "bulkSync rx e w =
     bulkSync_pages rx e 1 \<lparr>synced = 0, skipped = 0, failed = 0\<rparr> (log LogBulkStart w)"

text \<open>
  The calls a run added to the record, and the writes among them: every call but the
  three reads (get an issue, list a page, look a label up).
\<close>

definition new_calls :: "world \<Rightarrow> world \<Rightarrow> (call \<times> bool) list" where
  "new_calls w w' = drop (length (calls w)) (calls w')"

fun is_write :: "call \<Rightarrow> bool" where
  "is_write (IssuesGet _) = False"
| "is_write (IssuesListForRepo _) = False"
| "is_write (IssuesGetLabel _) = False"
| "is_write _ = True"

definition writes :: "(call \<times> bool) list \<Rightarrow> (call \<times> bool) list" where
  "writes cs = filter (\<lambda>c. is_write (fst c)) cs"

text \<open>
  The place of a call in the sequence of one issue: fetch, create in Jira, look the label
  up, create the label, attach it, comment, close.
\<close>

fun step_rank :: "call \<Rightarrow> nat" where
  "step_rank (IssuesGet _) = 0"
| "step_rank (IssuesListForRepo _) = 0"
| "step_rank (JiraRequest _ _ _) = 1"
| "step_rank (IssuesGetLabel _) = 2"
| "step_rank (IssuesCreateLabel _ _ _) = 3"
| "step_rank (IssuesAddLabels _ _) = 4"
| "step_rank (IssuesCreateComment _ _) = 5"
| "step_rank (IssuesUpdate _ _ _) = 6"

text \<open>
  The calls of \<^verbatim>\<open>applyJiraLabel\<close> and of \<^verbatim>\<open>closeIssue\<close> outside a dry run, by the outcome of
  each call: the label is found (\<open>g\<close>) or else created (\<open>c\<close>), then attached (\<open>a\<close>); the
  comment is posted (\<open>x\<close>), then the issue closed (\<open>y\<close>). A call is made only when the
  one before it succeeded, but for the creation of the label, which follows a failed lookup.
\<close>

definition label_calls :: "nat \<Rightarrow> string \<Rightarrow> bool \<Rightarrow> bool \<Rightarrow> bool \<Rightarrow> (call \<times> bool) list" where
  "label_calls n k g c a =
     (IssuesGetLabel (jira_label_name k), g) #
     (if g then [] else [(IssuesCreateLabel (jira_label_name k) ''0075ca''
                            (''Synced to Jira as '' @ k), c)]) @
     (if g \<or> c then [(IssuesAddLabels n [jira_label_name k], a)] else [])"

definition close_calls :: "nat \<Rightarrow> string \<Rightarrow> bool \<Rightarrow> bool \<Rightarrow> (call \<times> bool) list" where
  "close_calls n txt x y =
     (IssuesCreateComment n txt, x) #
     (if x then [(IssuesUpdate n ''closed'' ''not_planned'', y)] else [])"

text \<open>The issues fetched by a sequence of calls, and the issues a log reports as failed.\<close>

fun fetched :: "(call \<times> bool) list \<Rightarrow> nat list" where
  "fetched [] = []"
| "fetched ((IssuesGet n, _) # cs) = n # fetched cs"
| "fetched (_ # cs) = fetched cs"

fun bulk_failures :: "log_line list \<Rightarrow> nat list" where
  "bulk_failures [] = []"
| "bulk_failures (LogBulkFailed n _ # ls) = n # bulk_failures ls"
| "bulk_failures (_ # ls) = bulk_failures ls"

text \<open>The pages a bulk run reads: up to the first empty page or the first of fewer than 100 entries.\<close>

fun pages_read :: "issue list list \<Rightarrow> issue list list" where
  "pages_read [] = []"
| "pages_read (p # ps) =
     (if p = [] then [] else if length p < 100 then [p] else p # pages_read ps)"

section \<open>A small instance\<close>

text \<open>
  One open issue without a sync label in a repository that does not have the label yet, a
  Jira that answers with the key \<open>AB-12\<close>, no fault, and an engine that finds nothing in
  the body; the same issue already labelled; a configuration that closes after the sync.
\<close>

definition demo_issue :: issue where
  "demo_issue =
     \<lparr>number = 7, title = ''[TODO] Fix race condition'', body = Some ''Freeform text'',
      state = ''open'', labels = [\<lparr>name = ''bug''\<rparr>],
      html_url = ''https://github.com/o/r/issues/7'', pull_request = False\<rparr>"

definition demo_world :: world where
  "demo_world =
     \<lparr>issues = (\<lambda>n. if n = 7 then Some demo_issue else None),
      repo_labels = [''bug''], comments = [], listing = [[demo_issue]],
      jira_created = [], jira_keys = (\<lambda>_. ''AB-12''), faults = [], calls = [],
      console = [], output_file = [], output_writable = True, now = ''2024-05-01T00:00:00.000Z'', slept = 0\<rparr>"

definition demo_labelled :: world where
  "demo_labelled =
     demo_world\<lparr>issues := (\<lambda>n. if n = 7
        then Some (demo_issue\<lparr>labels := [\<lparr>name = ''bug''\<rparr>, \<lparr>name = ''jira:AB-12''\<rparr>]\<rparr>)
        else None)\<rparr>"

definition demo_env :: env where
  "demo_env =
     \<lparr>JIRA_BASE_URL = ''https://example.atlassian.net'', JIRA_PROJECT_KEY = ''AB'',
      DRY_RUN = False, CLOSE_AFTER_SYNC = True, JIRA_ISSUE_TYPE_DEFAULT = ''Task'',
      GITHUB_OUTPUT = None\<rparr>"

definition no_match :: regex_engine where
  "no_match p s = None"

text \<open>A page: a pull request, an entry whose issue cannot be fetched, and the open issue.\<close>

definition demo_page :: "issue list" where
  "demo_page =
     [demo_issue\<lparr>number := 9, pull_request := True\<rparr>, demo_issue\<lparr>number := 8\<rparr>, demo_issue]"

section \<open>The label codec\<close>

text \<open>The test of the source accepts exactly the names of the shape the specification gives.\<close>

lemma not_class_dash: "\<not> is_upper_or_digit (CHR ''-'')"
  by (simp add: is_upper_or_digit_def is_upper_def is_digit_def)

lemma jira_key_re_shape: "jira_key_re k \<longleftrightarrow> key_shape k"
proof
  assume "jira_key_re k"
  then obtain c r where k: "k = c # r" and c: "is_upper c"
    and p: "takeWhile is_upper_or_digit r \<noteq> []"
    and q: "(case dropWhile is_upper_or_digit r of [] \<Rightarrow> False
           | d # ds \<Rightarrow> d = CHR ''-'' \<and> ds \<noteq> [] \<and> list_all is_digit ds)"
    by (auto simp: jira_key_re_def split: list.splits)
  from q obtain ds where d: "dropWhile is_upper_or_digit r = CHR ''-'' # ds"
    and ds: "ds \<noteq> []" "list_all is_digit ds"
    by (auto split: list.splits)
  have "r = takeWhile is_upper_or_digit r @ ''-'' @ ds"
    using takeWhile_dropWhile_id [of is_upper_or_digit r] d by simp
  moreover have "list_all is_upper_or_digit (takeWhile is_upper_or_digit r)"
    by (simp add: list_all_iff) (meson set_takeWhileD)
  ultimately show "key_shape k"
    unfolding key_shape_def using k c p ds by blast
next
  assume "key_shape k"
  then obtain c cs ds where k: "k = c # cs @ ''-'' @ ds" and c: "is_upper c"
    and cs: "cs \<noteq> []" "list_all is_upper_or_digit cs"
    and ds: "ds \<noteq> []" "list_all is_digit ds"
    unfolding key_shape_def by blast
  have t: "takeWhile is_upper_or_digit (cs @ CHR ''-'' # ds) = cs"
    using cs(2) not_class_dash by (simp add: list_all_iff takeWhile_tail)
  have d: "dropWhile is_upper_or_digit (cs @ CHR ''-'' # ds) = CHR ''-'' # ds"
    using cs(2) not_class_dash by (simp add: list_all_iff dropWhile_append3)
  show "jira_key_re k"
    using k c cs(1) ds t d by (simp add: jira_key_re_def)
qed

lemma sync_label_re_shape: "sync_label_re nm \<longleftrightarrow> sync_label_shape nm"
proof
  assume a: "sync_label_re nm"
  then have "nm = ''jira:'' @ drop 5 nm"
    unfolding sync_label_re_def by (metis append_take_drop_id)
  with a show "sync_label_shape nm"
    unfolding sync_label_shape_def sync_label_re_def jira_key_re_shape by blast
next
  assume "sync_label_shape nm"
  then show "sync_label_re nm"
    unfolding sync_label_shape_def sync_label_re_def jira_key_re_shape by auto
qed

lemma find_no_sync: "no_sync_label xs \<Longrightarrow> find (\<lambda>l. sync_label_re (name l)) xs = None"
  by (simp add: no_sync_label_def find_None_iff list_all_iff sync_label_re_shape)

lemma find_first_sync:
  "no_sync_label xs \<Longrightarrow> sync_label_re (name l) \<Longrightarrow>
   find (\<lambda>l. sync_label_re (name l)) (xs @ l # ys) = Some l"
  by (induction xs) (simp_all add: no_sync_label_def sync_label_re_shape)

lemma key_shape_AB12: "key_shape ''AB-12''"
  unfolding key_shape_def
  by (rule exI [of _ "CHR ''A''"], rule exI [of _ "''B''"], rule exI [of _ "''12''"])
     (simp add: is_upper_def is_upper_or_digit_def is_digit_def)

lemma no_sync_bug: "no_sync_label [\<lparr>name = ''bug''\<rparr>, \<lparr>name = ''jira:ab-1''\<rparr>]"
  by (simp add: no_sync_label_def sync_label_re_shape [symmetric] sync_label_re_def
      jira_key_re_def is_upper_def)

text \<open>
  Claim C2. When a label set holds a name \<open>jira:\<close>\<open>k\<close> with \<open>k\<close> of the key shape (an upper-case
  letter, one or more upper-case letters or digits, a dash, one or more digits) and no label
  before it is a sync label, \<open>getJiraKeyFromLabels\<close> returns exactly \<open>k\<close>: the part after the
  marker of the first matching label. When no label of the set is a sync label it returns
  nothing. The function is total: it has no failing branch.
\<close>

theorem getJiraKeyFromLabels_spec:
  "(no_sync_label xs \<and> name l = ''jira:'' @ k \<and> key_shape k \<longrightarrow>
      getJiraKeyFromLabels (xs @ l # ys) = Some k) \<and>
   (no_sync_label ls \<longrightarrow> getJiraKeyFromLabels ls = None)"
proof (intro conjI impI)
  assume a: "no_sync_label xs \<and> name l = ''jira:'' @ k \<and> key_shape k"
  then have "sync_label_re (name l)"
    unfolding sync_label_re_shape sync_label_shape_def by blast
  with a have "find (\<lambda>l. sync_label_re (name l)) (xs @ l # ys) = Some l"
    by (simp add: find_first_sync)
  with a show "getJiraKeyFromLabels (xs @ l # ys) = Some k"
    by (simp add: getJiraKeyFromLabels_def)
next
  assume "no_sync_label ls"
  then show "getJiraKeyFromLabels ls = None"
    by (simp add: getJiraKeyFromLabels_def find_no_sync)
qed

theorem getJiraKeyFromLabels_spec_witness:
  "getJiraKeyFromLabels
     ([\<lparr>name = ''bug''\<rparr>, \<lparr>name = ''jira:ab-1''\<rparr>] @
      \<lparr>name = ''jira:AB-12''\<rparr> # [\<lparr>name = ''jira:CD-3''\<rparr>]) = Some ''AB-12'' \<and>
   getJiraKeyFromLabels [\<lparr>name = ''bug''\<rparr>, \<lparr>name = ''jira:ab-1''\<rparr>] = None"
  using getJiraKeyFromLabels_spec
    [of "[\<lparr>name = ''bug''\<rparr>, \<lparr>name = ''jira:ab-1''\<rparr>]" "\<lparr>name = ''jira:AB-12''\<rparr>" "''AB-12''"
      "[\<lparr>name = ''jira:CD-3''\<rparr>]" "[\<lparr>name = ''bug''\<rparr>, \<lparr>name = ''jira:ab-1''\<rparr>]"]
    key_shape_AB12 no_sync_bug
  by simp

text \<open>
  Claim C10. For a key \<open>k\<close> of the key shape and labels without a sync label, the label
  \<^verbatim>\<open>applyJiraLabel\<close> writes for \<open>k\<close>, put anywhere among them, is read back by
  \<open>getJiraKeyFromLabels\<close> as exactly \<open>k\<close>.
\<close>

theorem label_round_trip:
  "key_shape k \<and> no_sync_label (xs @ ys) \<longrightarrow>
   getJiraKeyFromLabels (xs @ \<lparr>name = jira_label_name k\<rparr> # ys) = Some k"
proof
  assume a: "key_shape k \<and> no_sync_label (xs @ ys)"
  then have "sync_label_re (jira_label_name k)"
    unfolding sync_label_re_shape sync_label_shape_def jira_label_name_def by blast
  moreover from a have "no_sync_label xs" by (simp add: no_sync_label_def)
  ultimately have "find (\<lambda>l. sync_label_re (name l)) (xs @ \<lparr>name = jira_label_name k\<rparr> # ys)
      = Some \<lparr>name = jira_label_name k\<rparr>"
    by (simp add: find_first_sync)
  then show "getJiraKeyFromLabels (xs @ \<lparr>name = jira_label_name k\<rparr> # ys) = Some k"
    by (simp add: getJiraKeyFromLabels_def jira_label_name_def)
qed

theorem label_round_trip_witness:
  "getJiraKeyFromLabels
     ([\<lparr>name = ''bug''\<rparr>, \<lparr>name = ''jira:ab-1''\<rparr>] @
      \<lparr>name = jira_label_name ''AB-12''\<rparr> # []) = Some ''AB-12''"
  using label_round_trip
    [of "''AB-12''" "[\<lparr>name = ''bug''\<rparr>, \<lparr>name = ''jira:ab-1''\<rparr>]" "[]"]
    key_shape_AB12 no_sync_bug
  by simp

section \<open>Summary, issue type and description\<close>

text \<open>
  Claim C5. The summary of the title \<^verbatim>\<open>[TODO][P1 CRITICAL] Fix race condition\<close>: the
  pattern removes the first bracket group only, so the second group stays in the summary.
\<close>

theorem jira_summary_bracket_groups:
  "jira_summary ''[TODO][P1 CRITICAL] Fix race condition'' = ''[P1 CRITICAL] Fix race condition'' \<and>
   jira_summary ''[TODO][P1 CRITICAL] Fix race condition'' \<noteq> ''Fix race condition''"
  by (simp add: jira_summary_def strip_bracket_prefix_def trim_def is_space_def)

text \<open>
  What holds of the summary: it has at most 255 characters; a title that does not start
  with a bracket is trimmed and cut; one bracket group is removed.
\<close>

lemma jira_summary_length: "length (jira_summary t) \<le> 255"
  by (simp add: jira_summary_def)

lemma jira_summary_no_prefix:
  "t = [] \<or> hd t \<noteq> CHR ''['' \<Longrightarrow> jira_summary t = take 255 (trim t)"
  by (cases t) (auto simp: jira_summary_def strip_bracket_prefix_def)

lemma jira_summary_one_group:
  "jira_summary ''[TODO] Fix race condition'' = ''Fix race condition''"
  by (simp add: jira_summary_def strip_bracket_prefix_def trim_def is_space_def)

text \<open>
  Claim C6. A label named \<^verbatim>\<open>constructor\<close> has no entry in \<^verbatim>\<open>TYPE_MAP\<close>, yet the read
  \<^verbatim>\<open>TYPE_MAP[l.name]\<close> finds the member every object inherits, and \<^verbatim>\<open>deriveIssueType\<close>
  returns it instead of the configured default.
\<close>

theorem deriveIssueType_inherited_name:
  "deriveIssueType e [\<lparr>name = ''constructor''\<rparr>] = Inherited ''constructor'' \<and>
   deriveIssueType e [\<lparr>name = ''constructor''\<rparr>] \<noteq> Own (JIRA_ISSUE_TYPE_DEFAULT e) \<and>
   map_of TYPE_MAP ''constructor'' = None"
  by (simp add: js_get_def TYPE_MAP_def object_prototype_names_def truthy_property_def)

text \<open>
  For labels that are not named like a member of \<^verbatim>\<open>Object.prototype\<close>: without a label of
  the table the result is the configured default, and the first label of the table decides.
\<close>

lemma TYPE_MAP_values: "map_of TYPE_MAP k = Some v \<Longrightarrow> v \<noteq> []"
  by (auto simp: TYPE_MAP_def split: if_splits)

lemma deriveIssueType_default:
  "list_all (\<lambda>l. map_of TYPE_MAP (name l) = None \<and> name l \<notin> set object_prototype_names) ls \<Longrightarrow>
   deriveIssueType e ls = Own (JIRA_ISSUE_TYPE_DEFAULT e)"
  by (induction ls) (simp_all add: js_get_def)

lemma deriveIssueType_first:
  "list_all (\<lambda>l. map_of TYPE_MAP (name l) = None \<and> name l \<notin> set object_prototype_names) xs \<Longrightarrow>
   map_of TYPE_MAP (name l) = Some v \<Longrightarrow>
   deriveIssueType e (xs @ l # ys) = Own v"
  by (induction xs) (auto simp: js_get_def truthy_property_def dest: TYPE_MAP_values)

text \<open>
  Claim C7. The document has one table. Its rows are the header row with the cells
  \<open>Field\<close> and \<open>Value\<close>; then, in the order file, line, branch, commit, introduced, author,
  one row for each field that is populated, with the name of the field in its first cell
  and the value in its second, and no row for a field that is absent or empty; then the row
  with the cells \<open>GitHub Issue\<close> and the URL of the issue. So when only the file and the
  author are populated the table is the header row, the row of the file, the row of the
  author and the row of the URL.
\<close>

theorem details_table_rows:
  "(\<exists>d. buildDescription i m = Inr d \<and>
      tables (content d) =
        [TableRow [TableHeader [Paragraph [Text ''Field'' []]],
                   TableHeader [Paragraph [Text ''Value'' []]]] #
         concat (map (\<lambda>(k, v). case v of
                         None \<Rightarrow> []
                       | Some s \<Rightarrow>
                           if s = [] then []
                           else [TableRow [TableCell [Paragraph [Text k []]],
                                           TableCell [Paragraph [Text s []]]]])
                   [(''File'', file m), (''Line'', line m), (''Branch'', branch m),
                    (''Commit'', commit m), (''Introduced'', introduced m),
                    (''Author'', author m)]) @
         [TableRow [TableCell [Paragraph [Text ''GitHub Issue'' []]],
                    TableCell [Paragraph [Text (html_url i) []]]]]]) \<and>
   (file m = Some f \<and> f \<noteq> [] \<and> author m = Some a \<and> a \<noteq> [] \<and>
    \<not> truthy (line m) \<and> \<not> truthy (branch m) \<and> \<not> truthy (commit m) \<and> \<not> truthy (introduced m) \<longrightarrow>
    (\<exists>d. buildDescription i m = Inr d \<and>
       tables (content d) =
         [[TableRow [TableHeader [Paragraph [Text ''Field'' []]], TableHeader [Paragraph [Text ''Value'' []]]],
           TableRow [TableCell [Paragraph [Text ''File'' []]], TableCell [Paragraph [Text f []]]],
           TableRow [TableCell [Paragraph [Text ''Author'' []]], TableCell [Paragraph [Text a []]]],
           TableRow [TableCell [Paragraph [Text ''GitHub Issue'' []]], TableCell [Paragraph [Text (html_url i) []]]]]]))"
proof -
  have r: "\<And>k s. adfTableRow [Some k, Some s] False =
      TableRow [TableCell [Paragraph [Text k []]], TableCell [Paragraph [Text s []]]]"
    and h: "adfTableRow [Some ''Field'', Some ''Value''] True =
      TableRow [TableHeader [Paragraph [Text ''Field'' []]],
                TableHeader [Paragraph [Text ''Value'' []]]]"
    by (simp_all add: adfTableRow_def)
  have rows: "map (\<lambda>(k, v). adfTableRow [Some k, Some v] False) (metaRows i m) =
      concat (map (\<lambda>(k, v). case v of
                      None \<Rightarrow> []
                    | Some s \<Rightarrow>
                        if s = [] then []
                        else [TableRow [TableCell [Paragraph [Text k []]],
                                        TableCell [Paragraph [Text s []]]]])
                [(''File'', file m), (''Line'', line m), (''Branch'', branch m),
                 (''Commit'', commit m), (''Introduced'', introduced m),
                 (''Author'', author m)]) @
      [TableRow [TableCell [Paragraph [Text ''GitHub Issue'' []]],
                 TableCell [Paragraph [Text (html_url i) []]]]]"
    by (simp add: metaRows_def filter_Boolean_def and_row_def r split: option.splits)
  have doc: "\<exists>d. buildDescription i m = Inr d \<and>
      tables (content d) =
        [adfTableRow [Some ''Field'', Some ''Value''] True #
         map (\<lambda>(k, v). adfTableRow [Some k, Some v] False) (metaRows i m)]"
    by (auto simp: buildDescription_def on_string_def provenance_def truthy_def Let_def
        split: option.splits)
  from doc show ?thesis
    unfolding rows h by (auto simp: truthy_def split: option.splits)
qed

theorem details_table_rows_witness:
  "(\<exists>d. buildDescription demo_issue
          \<lparr>todoText = None, codeBlock = None, file = Some ''src/a.js'', line = None,
             branch = Some [], commit = None, introduced = None, author = Some ''alice''\<rparr> = Inr d \<and>
        tables (content d) =
          [[TableRow [TableHeader [Paragraph [Text ''Field'' []]], TableHeader [Paragraph [Text ''Value'' []]]],
            TableRow [TableCell [Paragraph [Text ''File'' []]], TableCell [Paragraph [Text ''src/a.js'' []]]],
            TableRow [TableCell [Paragraph [Text ''Author'' []]], TableCell [Paragraph [Text ''alice'' []]]],
            TableRow [TableCell [Paragraph [Text ''GitHub Issue'' []]], TableCell [Paragraph [Text ''https://github.com/o/r/issues/7'' []]]]]]) \<and>
   (\<exists>d. buildDescription demo_issue
          \<lparr>todoText = None, codeBlock = None, file = Some ''src/a.js'', line = Some ''3'',
             branch = Some ''main'', commit = Some ''abc'', introduced = Some ''2024'',
             author = Some ''alice''\<rparr> = Inr d \<and>
        tables (content d) =
          [[TableRow [TableHeader [Paragraph [Text ''Field'' []]], TableHeader [Paragraph [Text ''Value'' []]]],
            TableRow [TableCell [Paragraph [Text ''File'' []]], TableCell [Paragraph [Text ''src/a.js'' []]]],
            TableRow [TableCell [Paragraph [Text ''Line'' []]], TableCell [Paragraph [Text ''3'' []]]],
            TableRow [TableCell [Paragraph [Text ''Branch'' []]], TableCell [Paragraph [Text ''main'' []]]],
            TableRow [TableCell [Paragraph [Text ''Commit'' []]], TableCell [Paragraph [Text ''abc'' []]]],
            TableRow [TableCell [Paragraph [Text ''Introduced'' []]], TableCell [Paragraph [Text ''2024'' []]]],
            TableRow [TableCell [Paragraph [Text ''Author'' []]], TableCell [Paragraph [Text ''alice'' []]]],
            TableRow [TableCell [Paragraph [Text ''GitHub Issue'' []]], TableCell [Paragraph [Text ''https://github.com/o/r/issues/7'' []]]]]])"
  using details_table_rows
      [of demo_issue
          "\<lparr>todoText = None, codeBlock = None, file = Some ''src/a.js'', line = None,
             branch = Some [], commit = None, introduced = None, author = Some ''alice''\<rparr>"
          "''src/a.js''" "''alice''", THEN conjunct2]
    details_table_rows
      [of demo_issue
          "\<lparr>todoText = None, codeBlock = None, file = Some ''src/a.js'', line = Some ''3'',
             branch = Some ''main'', commit = Some ''abc'', introduced = Some ''2024'',
             author = Some ''alice''\<rparr>", THEN conjunct1]
  by (simp add: truthy_def demo_issue_def)

text \<open>
  \<^verbatim>\<open>buildDescription\<close> itself returns a document for every issue and every metadata, and
  raises nothing: its method calls on a value that may be \<^verbatim>\<open>null\<close> are guarded by the test of
  \<^verbatim>\<open>meta.codeBlock\<close>. The document starts with the provenance paragraph, and the last row
  of its one table carries the URL of the GitHub issue.
\<close>

lemma buildDescription_returns:
  "\<exists>d rest rows. buildDescription i m = Inr d \<and> content d = provenance # rest \<and>
     tables (content d) = [rows] \<and>
     last rows = TableRow [TableCell [Paragraph [Text ''GitHub Issue'' []]],
                           TableCell [Paragraph [Text (html_url i) []]]]"
  by (auto simp: buildDescription_def metaRows_def filter_Boolean_def adfTableRow_def
      on_string_def provenance_def truthy_def Let_def split: option.splits)

text \<open>An issue with a body, whatever the engine finds in it, gets its description.\<close>

lemma description_of_body:
  "\<exists>m d. parseBody rx (Some b) = Inr m \<and> buildDescription i m = Inr d"
  using buildDescription_returns by (simp add: parseBody_def on_string_def) blast

text \<open>
  Claim C8. For an issue without a body, which GitHub sends as \<^verbatim>\<open>null\<close>, the description is
  not composed: \<^verbatim>\<open>parseBody\<close> raises a \<^verbatim>\<open>TypeError\<close>, and \<^verbatim>\<open>createJiraIssue\<close> raises it before
  \<^verbatim>\<open>buildDescription\<close> is reached and before any call is made.
\<close>

theorem description_raises_on_null_body:
  "parseBody rx None = Inl TypeError \<and>
   createJiraIssue rx e (i\<lparr>body := None\<rparr>) w = (Inl (Thrown TypeError), w)"
  by (simp add: createJiraIssue_def parseBody_def on_string_def)

section \<open>The run on one issue\<close>

text \<open>
  The functions in a form without patterns on pairs, and what one call does to the record
  of calls, to the issues and to the faults.
\<close>

lemma await_alt:
  "await m f w = (case fst (m w) of Inl err \<Rightarrow> (Inl err, snd (m w)) | Inr x \<Rightarrow> f x (snd (m w)))"
  by (simp add: await_def split: prod.splits sum.splits)

lemma respond_fst:
  "fst (respond c a eff w) =
     (case a of None \<Rightarrow> Inl (RequestFailed c)
      | Some x \<Rightarrow> if up (faults w) then Inr x else Inl (RequestFailed c))"
  by (simp add: respond_def Let_def split: option.splits)

lemma respond_snd:
  "snd (respond c a eff w) =
     (if a \<noteq> None \<and> up (faults w)
      then eff (w\<lparr>faults := tl (faults w), calls := calls w @ [(c, True)]\<rparr>)
      else w\<lparr>faults := tl (faults w), calls := calls w @ [(c, False)]\<rparr>)"
  by (auto simp: respond_def Let_def split: option.splits)

lemmas base_ops = octokit_issues_get_def octokit_issues_getLabel_def
  octokit_issues_createLabel_def octokit_issues_addLabels_def
  octokit_issues_createComment_def octokit_issues_update_def jira_def

lemma ensureLabel_alt:
  "ensureLabel nm c d w =
     (case fst (octokit_issues_getLabel nm w) of
        Inr u \<Rightarrow> (Inr u, snd (octokit_issues_getLabel nm w))
      | Inl _ \<Rightarrow> octokit_issues_createLabel nm c d (snd (octokit_issues_getLabel nm w)))"
  by (simp add: ensureLabel_def split: prod.splits sum.splits)

lemma get_run:
  "fst (octokit_issues_get n w) =
     (case issues w n of None \<Rightarrow> Inl (RequestFailed (IssuesGet n))
      | Some i \<Rightarrow> if up (faults w) then Inr i else Inl (RequestFailed (IssuesGet n)))"
  "calls (snd (octokit_issues_get n w)) =
     calls w @ [(IssuesGet n, issues w n \<noteq> None \<and> up (faults w))]"
  "issues (snd (octokit_issues_get n w)) = issues w"
  "console (snd (octokit_issues_get n w)) = console w"
  by (simp_all add: octokit_issues_get_def respond_fst respond_snd)

lemma buildDescription_Inr: "\<exists>d. buildDescription i m = Inr d"
  by (simp add: buildDescription_def on_string_def truthy_def Let_def split: option.splits)

lemma parseBody_Inr: "body i = Some b \<Longrightarrow> \<exists>m. parseBody rx (body i) = Inr m"
  by (simp add: parseBody_def on_string_def)

lemma createJiraIssue_null_body:
  "body i = None \<Longrightarrow> createJiraIssue rx e i w = (Inl (Thrown TypeError), w)"
  by (simp add: createJiraIssue_def parseBody_def on_string_def)

lemma createJiraIssue_dry:
  assumes "DRY_RUN e" "body i \<noteq> None"
  shows "fst (createJiraIssue rx e i w) = Inr (JIRA_PROJECT_KEY e @ ''-DRY'') \<and>
   calls (snd (createJiraIssue rx e i w)) = calls w \<and>
   issues (snd (createJiraIssue rx e i w)) = issues w"
proof -
  from assms obtain m where m: "parseBody rx (body i) = Inr m"
    using parseBody_Inr by blast
  obtain d where d: "buildDescription i m = Inr d"
    using buildDescription_Inr by blast
  show ?thesis
    using assms m d by (simp add: createJiraIssue_def log_def Let_def)
qed

lemma createJiraIssue_run:
  assumes "\<not> DRY_RUN e" "body i \<noteq> None"
  shows "\<exists>p. calls (snd (createJiraIssue rx e i w)) =
             calls w @ [(JiraRequest ''POST'' ''/issue'' p, up (faults w))] \<and>
           fst (createJiraIssue rx e i w) =
             (if up (faults w) then Inr (jira_keys w (length (jira_created w)))
              else Inl (RequestFailed (JiraRequest ''POST'' ''/issue'' p))) \<and>
           issues (snd (createJiraIssue rx e i w)) = issues w"
proof -
  from assms obtain m where m: "parseBody rx (body i) = Inr m"
    using parseBody_Inr by blast
  obtain d where d: "buildDescription i m = Inr d"
    using buildDescription_Inr by blast
  show ?thesis
    using assms m d
    by (simp add: createJiraIssue_def jira_def respond_fst respond_snd log_def Let_def)
qed

lemma applyJiraLabel_run:
  assumes "\<not> DRY_RUN e"
  shows "\<exists>g c a.
      calls (snd (applyJiraLabel e n k w)) =
        calls w @ (IssuesGetLabel (jira_label_name k), g) #
          (if g then [] else [(IssuesCreateLabel (jira_label_name k) ''0075ca''
                                 (''Synced to Jira as '' @ k), c)]) @
          (if g \<or> c then [(IssuesAddLabels n [jira_label_name k], a)] else []) \<and>
      fst (applyJiraLabel e n k w) =
        (if g \<or> c then
           if a then Inr ()
           else Inl (RequestFailed (IssuesAddLabels n [jira_label_name k]))
         else Inl (RequestFailed (IssuesCreateLabel (jira_label_name k) ''0075ca''
                                 (''Synced to Jira as '' @ k)))) \<and>
      issues (snd (applyJiraLabel e n k w)) =
        (if (g \<or> c) \<and> a
         then (issues w)(n := map_option (add_labels [jira_label_name k]) (issues w n))
         else issues w)"
proof -
  let ?nm = "jira_label_name k"
  let ?g = "?nm \<in> set (repo_labels w) \<and> up (faults w)"
  let ?c = "?nm \<notin> set (repo_labels w) \<and> up (tl (faults w))"
  let ?a = "issues w n \<noteq> None \<and> up (if ?g then tl (faults w) else tl (tl (faults w)))"
  show ?thesis
    apply (rule exI [of _ ?g], rule exI [of _ ?c], rule exI [of _ ?a])
    using assms
    apply (simp add: applyJiraLabel_def ensureLabel_alt await_alt base_ops respond_fst
        respond_snd log_def Let_def split: option.splits)
    done
qed

lemma closeIssue_run:
  assumes "\<not> DRY_RUN e"
  shows "\<exists>a b.
      calls (snd (closeIssue e n k w)) =
        calls w @ (IssuesCreateComment n (close_comment e k (now w)), a) #
          (if a then [(IssuesUpdate n ''closed'' ''not_planned'', b)] else []) \<and>
      fst (closeIssue e n k w) =
        (if a then
           if b then Inr () else Inl (RequestFailed (IssuesUpdate n ''closed'' ''not_planned''))
         else Inl (RequestFailed (IssuesCreateComment n (close_comment e k (now w))))) \<and>
      map_option labels (issues (snd (closeIssue e n k w)) n) = map_option labels (issues w n)"
proof -
  let ?a = "issues w n \<noteq> None \<and> up (faults w)"
  let ?b = "up (tl (faults w))"
  show ?thesis
    apply (rule exI [of _ ?a], rule exI [of _ ?b])
    using assms
    apply (simp add: closeIssue_def await_alt base_ops respond_fst
        respond_snd log_def Let_def split: option.splits)
    done
qed

lemma log_frame [simp]:
  "calls (log l w) = calls w" "issues (log l w) = issues w" "faults (log l w) = faults w"
  "jira_keys (log l w) = jira_keys w" "jira_created (log l w) = jira_created w"
  by (simp_all add: log_def)

lemma write_output_frame [simp]:
  "calls (snd (write_output e k w)) = calls w" "issues (snd (write_output e k w)) = issues w"
  "fst (write_output e k w) =
     (if truthy (GITHUB_OUTPUT e) \<and> \<not> output_writable w then Inl AppendFailed else Inr ())"
  by (simp_all add: write_output_def)

lemma step_writable:
  "output_writable (snd (octokit_issues_get n w)) = output_writable w"
  "output_writable (snd (createJiraIssue rx e i w)) = output_writable w"
  "output_writable (snd (applyJiraLabel e n k w)) = output_writable w"
  "output_writable (snd (closeIssue e n k w)) = output_writable w"
  "output_writable (log l w) = output_writable w"
  by (simp_all add: createJiraIssue_def applyJiraLabel_def closeIssue_def ensureLabel_alt
      await_alt base_ops respond_fst respond_snd log_def Let_def
      split: sum.splits option.splits)

lemma get_frame:
  "faults (snd (octokit_issues_get n w)) = tl (faults w)"
  "jira_keys (snd (octokit_issues_get n w)) = jira_keys w"
  "jira_created (snd (octokit_issues_get n w)) = jira_created w"
  by (simp_all add: octokit_issues_get_def respond_snd)

lemma truthy_getJiraKey: "truthy (getJiraKeyFromLabels ls) \<longleftrightarrow> getJiraKeyFromLabels ls \<noteq> None"
proof (cases "getJiraKeyFromLabels ls")
  case None
  then show ?thesis by (simp add: truthy_def)
next
  case (Some k)
  then obtain m where "find (\<lambda>l. sync_label_re (name l)) ls = Some m" and k: "k = drop 5 (name m)"
    by (auto simp: getJiraKeyFromLabels_def split: option.splits)
  then have "sync_label_re (name m)"
    by (auto simp: find_Some_iff)
  with k have "k \<noteq> []"
    by (auto simp: sync_label_re_def jira_key_re_def split: list.splits)
  with Some show ?thesis by (simp add: truthy_def)
qed

lemma syncIssue_fetch_failed:
  assumes "issues w n = None \<or> \<not> up (faults w)"
  shows "fst (syncIssue rx e n w) = Inl (RequestFailed (IssuesGet n))"
    and "calls (snd (syncIssue rx e n w)) = calls w @ [(IssuesGet n, False)]"
    and "issues (snd (syncIssue rx e n w)) = issues w"
  using assms
  by (auto simp: syncIssue_def await_alt get_run split: option.splits)

text \<open>After a successful fetch the run is the rest of the function, on the world after the fetch.\<close>

lemma syncIssue_fetched:
  assumes "issues w n = Some i" "up (faults w)"
  shows "syncIssue rx e n w =
    (let w1 = snd (octokit_issues_get n (log (LogIssue n) w)) in
     if truthy (getJiraKeyFromLabels (labels i))
     then (Inr \<lparr>status = ''skipped'', reason = Some ''already_synced'',
                 jiraKey = getJiraKeyFromLabels (labels i)\<rparr>,
           log (LogAlreadySynced (or_else (getJiraKeyFromLabels (labels i)) [])) w1)
     else if state i = ''closed''
     then (Inr \<lparr>status = ''skipped'', reason = Some ''already_closed'', jiraKey = None\<rparr>,
           log LogIssueClosed w1)
     else (case fst (createJiraIssue rx e i w1) of
             Inl err \<Rightarrow> (Inl err, snd (createJiraIssue rx e i w1))
           | Inr k \<Rightarrow>
               (let w2 = log (LogCreated k) (snd (createJiraIssue rx e i w1)) in
                case fst (applyJiraLabel e n k w2) of
                  Inl err \<Rightarrow> (Inl err, snd (applyJiraLabel e n k w2))
                | Inr _ \<Rightarrow>
                    (let w3 = snd (applyJiraLabel e n k w2) in
                     if CLOSE_AFTER_SYNC e
                     then (case fst (closeIssue e n k w3) of
                             Inl err \<Rightarrow> (Inl err, snd (closeIssue e n k w3))
                           | Inr _ \<Rightarrow>
                               if truthy (GITHUB_OUTPUT e) \<and> \<not> output_writable w
                               then (Inl AppendFailed, snd (closeIssue e n k w3))
                               else (Inr \<lparr>status = ''synced'', reason = None, jiraKey = Some k\<rparr>,
                                     log (LogDone k)
                                       (snd (write_output e k (snd (closeIssue e n k w3))))))
                     else if truthy (GITHUB_OUTPUT e) \<and> \<not> output_writable w
                     then (Inl AppendFailed, w3)
                     else (Inr \<lparr>status = ''synced'', reason = None, jiraKey = Some k\<rparr>,
                           log (LogDone k) (snd (write_output e k w3)))))))"
  using assms
  by (simp add: syncIssue_def await_alt get_run step_writable write_output_def Let_def
      split: sum.splits)

text \<open>
  The run that reaches the Jira call, outside a dry run: its calls, by the outcome of each,
  when it returns synced, and the labels of the issue once the label is attached.
\<close>

lemma syncIssue_written:
  assumes dry: "\<not> DRY_RUN e" and i: "issues w n = Some i" and u: "up (faults w)"
    and nokey: "getJiraKeyFromLabels (labels i) = None" and opn: "state i \<noteq> ''closed''"
    and b: "body i \<noteq> None"
  shows "\<exists>p g c a txt x y.
      calls (snd (syncIssue rx e n w)) =
        calls w @ (IssuesGet n, True) #
          (JiraRequest ''POST'' ''/issue'' p, up (tl (faults w))) #
          (if up (tl (faults w))
           then label_calls n (jira_keys w (length (jira_created w))) g c a @
                (if (g \<or> c) \<and> a \<and> CLOSE_AFTER_SYNC e then close_calls n txt x y else [])
           else []) \<and>
      (fst (syncIssue rx e n w) =
         Inr \<lparr>status = ''synced'', reason = None,
               jiraKey = Some (jira_keys w (length (jira_created w)))\<rparr>
       \<longleftrightarrow> up (tl (faults w)) \<and> (g \<or> c) \<and> a \<and> (CLOSE_AFTER_SYNC e \<longrightarrow> x \<and> y) \<and>
           (truthy (GITHUB_OUTPUT e) \<longrightarrow> output_writable w)) \<and>
      (\<forall>r. fst (syncIssue rx e n w) = Inr r \<longrightarrow>
         r = \<lparr>status = ''synced'', reason = None,
               jiraKey = Some (jira_keys w (length (jira_created w)))\<rparr>) \<and>
      (up (tl (faults w)) \<and> (g \<or> c) \<and> a \<longrightarrow>
         map_option labels (issues (snd (syncIssue rx e n w)) n) =
           Some (labels (add_labels [jira_label_name (jira_keys w (length (jira_created w)))] i)))"
proof -
  let ?w1 = "snd (octokit_issues_get n (log (LogIssue n) w))"
  let ?k = "jira_keys w (length (jira_created w))"
  have w1: "calls ?w1 = calls w @ [(IssuesGet n, True)]" "issues ?w1 = issues w"
    "faults ?w1 = tl (faults w)" "jira_keys ?w1 = jira_keys w" "jira_created ?w1 = jira_created w"
    using i u by (simp_all add: get_run get_frame)
  have nt: "\<not> truthy (getJiraKeyFromLabels (labels i))"
    using nokey by (simp add: truthy_def)
  note S = syncIssue_fetched [OF i u, of rx e, unfolded Let_def, simplified nt opn if_False]
  obtain p where p:
    "calls (snd (createJiraIssue rx e i ?w1)) =
       calls ?w1 @ [(JiraRequest ''POST'' ''/issue'' p, up (faults ?w1))]"
    "fst (createJiraIssue rx e i ?w1) =
       (if up (faults ?w1) then Inr (jira_keys ?w1 (length (jira_created ?w1)))
        else Inl (RequestFailed (JiraRequest ''POST'' ''/issue'' p)))"
    "issues (snd (createJiraIssue rx e i ?w1)) = issues ?w1"
    using createJiraIssue_run [OF dry b, of rx ?w1] by blast
  show ?thesis
  proof (cases "up (tl (faults w))")
    case False
    with p w1 have "fst (syncIssue rx e n w) = Inl (RequestFailed (JiraRequest ''POST'' ''/issue'' p))"
      and "calls (snd (syncIssue rx e n w)) =
        calls w @ [(IssuesGet n, True), (JiraRequest ''POST'' ''/issue'' p, False)]"
      by (simp_all add: S)
    with False show ?thesis by auto
  next
    case True
    let ?w2 = "log (LogCreated ?k) (snd (createJiraIssue rx e i ?w1))"
    from True p w1 have c1: "fst (createJiraIssue rx e i ?w1) = Inr ?k"
      and c2: "calls ?w2 = calls w @ [(IssuesGet n, True), (JiraRequest ''POST'' ''/issue'' p, True)]"
      and c3: "issues ?w2 = issues w"
      by simp_all
    obtain g c a where l:
      "calls (snd (applyJiraLabel e n ?k ?w2)) = calls ?w2 @ label_calls n ?k g c a"
      "fst (applyJiraLabel e n ?k ?w2) =
        (if g \<or> c then
           if a then Inr ()
           else Inl (RequestFailed (IssuesAddLabels n [jira_label_name ?k]))
         else Inl (RequestFailed (IssuesCreateLabel (jira_label_name ?k) ''0075ca''
                                 (''Synced to Jira as '' @ ?k))))"
      "issues (snd (applyJiraLabel e n ?k ?w2)) =
        (if (g \<or> c) \<and> a
         then (issues ?w2)(n := map_option (add_labels [jira_label_name ?k]) (issues ?w2 n))
         else issues ?w2)"
      using applyJiraLabel_run [OF dry, of n ?k ?w2] unfolding label_calls_def by blast
    show ?thesis
    proof (cases "(g \<or> c) \<and> a")
      case False
      with l c1 c2 have "\<exists>err. fst (syncIssue rx e n w) = Inl err"
        and "calls (snd (syncIssue rx e n w)) =
          calls w @ (IssuesGet n, True) # (JiraRequest ''POST'' ''/issue'' p, True) #
            label_calls n ?k g c a"
        by (auto simp: S Let_def)
      with True False show ?thesis
        apply -
        apply (rule exI [of _ p], rule exI [of _ g], rule exI [of _ c], rule exI [of _ a])
        apply auto
        done
    next
      case ga: True
      let ?w3 = "snd (applyJiraLabel e n ?k ?w2)"
      from ga l c2 c3 i have l1: "fst (applyJiraLabel e n ?k ?w2) = Inr ()"
        and l2: "calls ?w3 = calls w @ (IssuesGet n, True) #
            (JiraRequest ''POST'' ''/issue'' p, True) # label_calls n ?k g c a"
        and l3: "map_option labels (issues ?w3 n) = Some (labels (add_labels [jira_label_name ?k] i))"
        by auto
      show ?thesis
      proof (cases "CLOSE_AFTER_SYNC e")
        case False
        with c1 l1 l2 l3 have "fst (syncIssue rx e n w) =
            (if truthy (GITHUB_OUTPUT e) \<and> \<not> output_writable w then Inl AppendFailed
             else Inr \<lparr>status = ''synced'', reason = None, jiraKey = Some ?k\<rparr>)"
          and "calls (snd (syncIssue rx e n w)) = calls ?w3"
          and "issues (snd (syncIssue rx e n w)) = issues ?w3"
          by (simp_all add: S Let_def)
        with True ga False l2 l3 show ?thesis
          apply -
        apply (rule exI [of _ p], rule exI [of _ g], rule exI [of _ c], rule exI [of _ a])
          apply auto
          done
      next
        case cl: True
        obtain x y where z:
          "calls (snd (closeIssue e n ?k ?w3)) =
             calls ?w3 @ close_calls n (close_comment e ?k (now ?w3)) x y"
          "fst (closeIssue e n ?k ?w3) =
            (if x then
               if y then Inr () else Inl (RequestFailed (IssuesUpdate n ''closed'' ''not_planned''))
             else Inl (RequestFailed (IssuesCreateComment n (close_comment e ?k (now ?w3)))))"
          "map_option labels (issues (snd (closeIssue e n ?k ?w3)) n) = map_option labels (issues ?w3 n)"
          using closeIssue_run [OF dry, of n ?k ?w3] unfolding close_calls_def by blast
        from cl c1 l1 l2 l3 z have
          "fst (syncIssue rx e n w) =
             (if x \<and> y
              then if truthy (GITHUB_OUTPUT e) \<and> \<not> output_writable w then Inl AppendFailed
                   else Inr \<lparr>status = ''synced'', reason = None, jiraKey = Some ?k\<rparr>
              else if x then Inl (RequestFailed (IssuesUpdate n ''closed'' ''not_planned''))
              else Inl (RequestFailed (IssuesCreateComment n (close_comment e ?k (now ?w3)))))"
          and "calls (snd (syncIssue rx e n w)) = calls ?w3 @ close_calls n (close_comment e ?k (now ?w3)) x y"
          and "map_option labels (issues (snd (syncIssue rx e n w)) n) =
                 Some (labels (add_labels [jira_label_name ?k] i))"
          by (auto simp: S Let_def)
        with True ga cl l2 show ?thesis
          apply -
        apply (rule exI [of _ p], rule exI [of _ g], rule exI [of _ c], rule exI [of _ a],
              rule exI [of _ "close_comment e ?k (now ?w3)"], rule exI [of _ x], rule exI [of _ y])
          apply auto
          done
      qed
    qed
  qed
qed

text \<open>What the first sync label and the label a run attaches give to the next reading.\<close>

lemma getJiraKey_at:
  assumes "no_sync_label xs" "sync_label_shape (name l)"
  shows "getJiraKeyFromLabels (xs @ l # ys) = Some (drop 5 (name l))"
proof -
  from assms(2) have "sync_label_re (name l)" by (simp add: sync_label_re_shape)
  with assms(1) have "find (\<lambda>l. sync_label_re (name l)) (xs @ l # ys) = Some l"
    by (rule find_first_sync)
  then show ?thesis by (simp add: getJiraKeyFromLabels_def)
qed

lemma getJiraKey_None: "getJiraKeyFromLabels ls = None \<longleftrightarrow> no_sync_label ls"
proof -
  have "getJiraKeyFromLabels ls = None \<longleftrightarrow> find (\<lambda>l. sync_label_re (name l)) ls = None"
    by (simp add: getJiraKeyFromLabels_def split: option.splits)
  also have "\<dots> \<longleftrightarrow> no_sync_label ls"
    by (auto simp: find_None_iff no_sync_label_def list_all_iff sync_label_re_shape)
  finally show ?thesis .
qed


lemma syncIssue_skip_synced:
  assumes "issues w n = Some i" "up (faults w)" "getJiraKeyFromLabels (labels i) = Some k"
  shows "fst (syncIssue rx e n w) =
      Inr \<lparr>status = ''skipped'', reason = Some ''already_synced'', jiraKey = Some k\<rparr>"
    and "calls (snd (syncIssue rx e n w)) = calls w @ [(IssuesGet n, True)]"
    and "issues (snd (syncIssue rx e n w)) = issues w"
  using assms truthy_getJiraKey [of "labels i"]
  by (simp_all add: syncIssue_fetched get_run Let_def)

lemma syncIssue_skip_closed:
  assumes "issues w n = Some i" "up (faults w)" "getJiraKeyFromLabels (labels i) = None"
    "state i = ''closed''"
  shows "fst (syncIssue rx e n w) =
      Inr \<lparr>status = ''skipped'', reason = Some ''already_closed'', jiraKey = None\<rparr>"
    and "calls (snd (syncIssue rx e n w)) = calls w @ [(IssuesGet n, True)]"
    and "issues (snd (syncIssue rx e n w)) = issues w"
  using assms truthy_getJiraKey [of "labels i"]
  by (simp_all add: syncIssue_fetched get_run Let_def)

lemma syncIssue_null_body:
  assumes "issues w n = Some i" "up (faults w)" "getJiraKeyFromLabels (labels i) = None"
    "state i \<noteq> ''closed''" "body i = None"
  shows "fst (syncIssue rx e n w) = Inl (Thrown TypeError)"
    and "calls (snd (syncIssue rx e n w)) = calls w @ [(IssuesGet n, True)]"
    and "issues (snd (syncIssue rx e n w)) = issues w"
  using assms truthy_getJiraKey [of "labels i"]
  by (simp_all add: syncIssue_fetched get_run createJiraIssue_null_body Let_def)

lemma dry_steps:
  assumes "DRY_RUN e"
  shows "fst (applyJiraLabel e n k w) = Inr ()" "calls (snd (applyJiraLabel e n k w)) = calls w"
    "issues (snd (applyJiraLabel e n k w)) = issues w"
    "fst (closeIssue e n k w) = Inr ()" "calls (snd (closeIssue e n k w)) = calls w"
    "issues (snd (closeIssue e n k w)) = issues w"
  using assms by (simp_all add: applyJiraLabel_def closeIssue_def Let_def)

lemma syncIssue_dry:
  assumes dry: "DRY_RUN e" and i: "issues w n = Some i" and u: "up (faults w)"
    and nokey: "getJiraKeyFromLabels (labels i) = None" and opn: "state i \<noteq> ''closed''"
    and b: "body i \<noteq> None"
  shows "fst (syncIssue rx e n w) =
      (if truthy (GITHUB_OUTPUT e) \<and> \<not> output_writable w then Inl AppendFailed
       else Inr \<lparr>status = ''synced'', reason = None,
                  jiraKey = Some (JIRA_PROJECT_KEY e @ ''-DRY'')\<rparr>)"
    and "calls (snd (syncIssue rx e n w)) = calls w @ [(IssuesGet n, True)]"
    and "issues (snd (syncIssue rx e n w)) = issues w"
  using assms truthy_getJiraKey [of "labels i"]
    createJiraIssue_dry [OF dry b, of rx "snd (octokit_issues_get n (log (LogIssue n) w))"]
  by (simp_all add: syncIssue_fetched get_run dry_steps Let_def)

text \<open>Every run that makes no write: its one call is the fetch, and no issue changes.\<close>

lemma syncIssue_read_only:
  assumes "DRY_RUN e \<or> issues w n = None \<or> \<not> up (faults w) \<or>
    (\<exists>i. issues w n = Some i \<and>
       (getJiraKeyFromLabels (labels i) \<noteq> None \<or> state i = ''closed'' \<or> body i = None))"
  shows "\<exists>ok. calls (snd (syncIssue rx e n w)) = calls w @ [(IssuesGet n, ok)] \<and>
    issues (snd (syncIssue rx e n w)) = issues w"
proof (cases "issues w n = None \<or> \<not> up (faults w)")
  case True
  then show ?thesis using syncIssue_fetch_failed [of w n rx e] by blast
next
  case False
  then obtain i where i: "issues w n = Some i" and u: "up (faults w)" by auto
  show ?thesis
  proof (cases "getJiraKeyFromLabels (labels i)")
    case (Some k)
    then show ?thesis using syncIssue_skip_synced [OF i u, of k rx e] by blast
  next
    case None
    show ?thesis
    proof (cases "state i = ''closed''")
      case True
      then show ?thesis using syncIssue_skip_closed [OF i u None, of rx e] by blast
    next
      case opn: False
      show ?thesis
      proof (cases "body i = None")
        case True
        then show ?thesis using syncIssue_null_body [OF i u None opn, of rx e] by blast
      next
        case False
        with assms i u None opn have "DRY_RUN e" by auto
        then show ?thesis using syncIssue_dry [OF _ i u None opn False, of e rx] by blast
      qed
    qed
  qed
qed

lemma add_sync_label:
  assumes "getJiraKeyFromLabels (labels i) = None" "key_shape k"
  shows "getJiraKeyFromLabels (labels (add_labels [jira_label_name k] i)) = Some k"
proof -
  have s: "sync_label_shape (jira_label_name k)"
    using assms(2) by (auto simp: sync_label_shape_def jira_label_name_def)
  from assms(1) have n: "no_sync_label (labels i)" by (simp add: getJiraKey_None)
  then have "jira_label_name k \<notin> set (map name (labels i))"
    using s by (auto simp: no_sync_label_def list_all_iff)
  then have "labels (add_labels [jira_label_name k] i) =
      labels i @ \<lparr>name = jira_label_name k\<rparr> # []"
    by (simp add: add_labels_def)
  with getJiraKey_at [OF n, of "\<lparr>name = jira_label_name k\<rparr>" "[]"] s
  show ?thesis by (simp add: jira_label_name_def)
qed

text \<open>The run on the small instance, computed.\<close>

lemmas demo_defs = demo_world_def demo_labelled_def demo_issue_def demo_env_def no_match_def

lemmas eval_defs = syncIssue_def await_def octokit_issues_get_def octokit_issues_getLabel_def
  octokit_issues_createLabel_def octokit_issues_addLabels_def octokit_issues_createComment_def
  octokit_issues_update_def jira_def respond_def up_def log_def write_output_def
  createJiraIssue_def ensureLabel_def applyJiraLabel_def closeIssue_def parseBody_def
  on_string_def buildDescription_def truthy_def getJiraKeyFromLabels_def sync_label_re_def
  jira_key_re_def jira_label_name_def add_labels_def new_calls_def Let_def

lemma demo_run_calls:
  "map (\<lambda>c. (step_rank (fst c), snd c)) (calls (snd (syncIssue no_match demo_env 7 demo_world))) =
     [(0, True), (1, True), (2, False), (3, True), (4, True), (5, True), (6, True)]"
  by (simp add: demo_defs eval_defs is_upper_def)

lemma demo_run_labelled:
  "(IssuesAddLabels 7 [jira_label_name ''AB-12''], True)
     \<in> set (new_calls demo_world (snd (syncIssue no_match demo_env 7 demo_world)))"
  by (simp add: demo_defs eval_defs is_upper_def)


lemma demo_run_faults: "faults (snd (syncIssue no_match demo_env 7 demo_world)) = []"
  by (simp add: demo_defs eval_defs is_upper_def)

lemma jira_label_name_inject [simp]: "jira_label_name k = jira_label_name k' \<longleftrightarrow> k = k'"
  by (simp add: jira_label_name_def)

text \<open>
  Claim C1. An issue whose labels hold a sync label, \<open>k\<close> being the key of the first one: the
  run makes no write, and when the fetch goes through it returns skipped, already synced,
  with \<open>k\<close>. A run that attached the label of a key \<open>k\<close> of the key shape leaves the issue
  so: a second run, under any configuration, makes no write and returns skipped, already
  synced, with \<open>k\<close>.
\<close>

theorem syncIssue_already_synced:
  "(issues w n = Some i \<and> labels i = xs @ l # ys \<and> no_sync_label xs \<and>
    name l = ''jira:'' @ k \<and> key_shape k \<longrightarrow>
      writes (new_calls w (snd (syncIssue rx e n w))) = [] \<and>
      (up (faults w) \<longrightarrow>
         fst (syncIssue rx e n w) =
           Inr \<lparr>status = ''skipped'', reason = Some ''already_synced'', jiraKey = Some k\<rparr>)) \<and>
   ((IssuesAddLabels n [jira_label_name k], True) \<in> set (new_calls w (snd (syncIssue rx e n w))) \<and>
    key_shape k \<longrightarrow>
      writes (new_calls (snd (syncIssue rx e n w))
                (snd (syncIssue rx e' n (snd (syncIssue rx e n w))))) = [] \<and>
      (up (faults (snd (syncIssue rx e n w))) \<longrightarrow>
         fst (syncIssue rx e' n (snd (syncIssue rx e n w))) =
           Inr \<lparr>status = ''skipped'', reason = Some ''already_synced'', jiraKey = Some k\<rparr>))"
proof (intro conjI impI)
  assume a: "issues w n = Some i \<and> labels i = xs @ l # ys \<and> no_sync_label xs \<and>
    name l = ''jira:'' @ k \<and> key_shape k"
  then have "sync_label_shape (name l)" by (auto simp: sync_label_shape_def)
  with a have k: "getJiraKeyFromLabels (labels i) = Some k"
    using getJiraKey_at [of xs l ys] by simp
  with a obtain ok where "calls (snd (syncIssue rx e n w)) = calls w @ [(IssuesGet n, ok)]"
    using syncIssue_read_only [of e w n rx] by auto
  then show "writes (new_calls w (snd (syncIssue rx e n w))) = []"
    by (simp add: new_calls_def writes_def)
  assume "up (faults w)"
  with a k show "fst (syncIssue rx e n w) =
      Inr \<lparr>status = ''skipped'', reason = Some ''already_synced'', jiraKey = Some k\<rparr>"
    using syncIssue_skip_synced(1) [of w n i k rx e] by simp
next
  let ?w1 = "snd (syncIssue rx e n w)"
  assume a: "(IssuesAddLabels n [jira_label_name k], True) \<in> set (new_calls w ?w1) \<and> key_shape k"
  have "\<exists>i. issues ?w1 n = Some i \<and> getJiraKeyFromLabels (labels i) = Some k"
  proof (cases "DRY_RUN e \<or> issues w n = None \<or> \<not> up (faults w) \<or>
    (\<exists>i. issues w n = Some i \<and>
       (getJiraKeyFromLabels (labels i) \<noteq> None \<or> state i = ''closed'' \<or> body i = None))")
    case True
    then obtain ok where "calls ?w1 = calls w @ [(IssuesGet n, ok)]"
      using syncIssue_read_only [of e w n rx] by blast
    with a show ?thesis by (simp add: new_calls_def)
  next
    case False
    then obtain i where i: "issues w n = Some i" and h: "\<not> DRY_RUN e" "up (faults w)"
      "getJiraKeyFromLabels (labels i) = None" "state i \<noteq> ''closed''" "body i \<noteq> None"
      by auto
    let ?k = "jira_keys w (length (jira_created w))"
    from syncIssue_written [OF h(1) i h(2-5), of rx]
    obtain p g c b cm x y where
      tr: "calls ?w1 =
        calls w @ (IssuesGet n, True) #
          (JiraRequest ''POST'' ''/issue'' p, up (tl (faults w))) #
          (if up (tl (faults w))
           then label_calls n ?k g c b @
                (if (g \<or> c) \<and> b \<and> CLOSE_AFTER_SYNC e then close_calls n cm x y else [])
           else [])"
      and lb: "up (tl (faults w)) \<and> (g \<or> c) \<and> b \<longrightarrow>
         map_option labels (issues ?w1 n) = Some (labels (add_labels [jira_label_name ?k] i))"
      by blast
    from a tr have "up (tl (faults w)) \<and> (g \<or> c) \<and> b \<and> ?k = k"
      by (auto simp: new_calls_def label_calls_def close_calls_def split: if_splits)
    with lb obtain z where "issues ?w1 n = Some z"
      and "labels z = labels (add_labels [jira_label_name k] i)"
      by auto
    with add_sync_label [OF h(3), of k] a show ?thesis by simp
  qed
  then obtain z where z: "issues ?w1 n = Some z" "getJiraKeyFromLabels (labels z) = Some k"
    by blast
  then obtain ok where "calls (snd (syncIssue rx e' n ?w1)) = calls ?w1 @ [(IssuesGet n, ok)]"
    using syncIssue_read_only [of e' ?w1 n rx] by auto
  then show "writes (new_calls ?w1 (snd (syncIssue rx e' n ?w1))) = []"
    by (simp add: new_calls_def writes_def)
  assume "up (faults ?w1)"
  with z show "fst (syncIssue rx e' n ?w1) =
      Inr \<lparr>status = ''skipped'', reason = Some ''already_synced'', jiraKey = Some k\<rparr>"
    using syncIssue_skip_synced(1) [of ?w1 n z k rx e'] by simp
qed

theorem syncIssue_already_synced_witness:
  "writes (new_calls demo_labelled (snd (syncIssue no_match demo_env 7 demo_labelled))) = [] \<and>
   fst (syncIssue no_match demo_env 7 demo_labelled) =
     Inr \<lparr>status = ''skipped'', reason = Some ''already_synced'', jiraKey = Some ''AB-12''\<rparr> \<and>
   writes (new_calls (snd (syncIssue no_match demo_env 7 demo_world))
             (snd (syncIssue no_match demo_env 7 (snd (syncIssue no_match demo_env 7 demo_world))))) = [] \<and>
   fst (syncIssue no_match demo_env 7 (snd (syncIssue no_match demo_env 7 demo_world))) =
     Inr \<lparr>status = ''skipped'', reason = Some ''already_synced'', jiraKey = Some ''AB-12''\<rparr>"
proof -
  have l: "issues demo_labelled 7 =
      Some (demo_issue\<lparr>labels := [\<lparr>name = ''bug''\<rparr>, \<lparr>name = ''jira:AB-12''\<rparr>]\<rparr>)"
    "labels (demo_issue\<lparr>labels := [\<lparr>name = ''bug''\<rparr>, \<lparr>name = ''jira:AB-12''\<rparr>]\<rparr>) =
      [\<lparr>name = ''bug''\<rparr>] @ \<lparr>name = ''jira:AB-12''\<rparr> # []"
    "up (faults demo_labelled)"
    by (simp_all add: demo_defs up_def)
  have n: "no_sync_label [\<lparr>name = ''bug''\<rparr>]"
    using no_sync_bug by (simp add: no_sync_label_def)
  show ?thesis
    using syncIssue_already_synced
        [of demo_labelled 7 "demo_issue\<lparr>labels := [\<lparr>name = ''bug''\<rparr>, \<lparr>name = ''jira:AB-12''\<rparr>]\<rparr>"
          "[\<lparr>name = ''bug''\<rparr>]" "\<lparr>name = ''jira:AB-12''\<rparr>" "[]" "''AB-12''" no_match demo_env
          demo_env]
      syncIssue_already_synced
        [of demo_world 7 _ _ _ _ "''AB-12''" no_match demo_env demo_env]
      l n key_shape_AB12 demo_run_labelled demo_run_faults
    by (simp add: up_def)
qed




section \<open>Dry run\<close>

text \<open>A key of the key shape ends in a digit; the placeholder of a dry run ends in a letter.\<close>

lemma key_shape_last_digit: "key_shape k \<Longrightarrow> is_digit (last k)"
  by (auto simp: key_shape_def list_all_iff)

lemma placeholder_not_key: "\<not> key_shape (pk @ ''-DRY'')"
proof
  assume "key_shape (pk @ ''-DRY'')"
  then have "is_digit (last (pk @ ''-DRY''))" by (rule key_shape_last_digit)
  then show False by (simp add: is_digit_def)
qed

lemma syncIssue_dry_frame:
  assumes "DRY_RUN e"
  shows "repo_labels (snd (syncIssue rx e n w)) = repo_labels w"
    and "comments (snd (syncIssue rx e n w)) = comments w"
    and "jira_created (snd (syncIssue rx e n w)) = jira_created w"
  using assms
  by (simp_all add: syncIssue_def await_alt get_run octokit_issues_get_def respond_fst
      respond_snd createJiraIssue_def applyJiraLabel_def closeIssue_def log_def
      write_output_def Let_def split: option.splits sum.splits)

lemma syncIssue_dry_console:
  assumes dry: "DRY_RUN e" and i: "issues w n = Some i" and u: "up (faults w)"
    and nokey: "getJiraKeyFromLabels (labels i) = None" and opn: "state i \<noteq> ''closed''"
    and b: "body i \<noteq> None" and ow: "truthy (GITHUB_OUTPUT e) \<longrightarrow> output_writable w"
  shows "\<exists>p. console (snd (syncIssue rx e n w)) =
      console w @
      [LogIssue n,
       LogCreating (deriveIssueType e (labels i)) (derivePriority (labels i))
         (jira_summary (title i)),
       LogDryRunJira, LogPayload p, LogCreated (JIRA_PROJECT_KEY e @ ''-DRY''),
       LogApplyingLabel (jira_label_name (JIRA_PROJECT_KEY e @ ''-DRY'')) n, LogDryRunLabel] @
      (if CLOSE_AFTER_SYNC e
       then [LogClosing n (JIRA_PROJECT_KEY e @ ''-DRY''), LogDryRunClose] else []) @
      [LogDone (JIRA_PROJECT_KEY e @ ''-DRY'')]"
proof -
  from b obtain m where m: "parseBody rx (body i) = Inr m"
    using parseBody_Inr by blast
  obtain d where d: "buildDescription i m = Inr d"
    using buildDescription_Inr by blast
  show ?thesis
    using assms m d truthy_getJiraKey [of "labels i"]
    by (simp add: syncIssue_fetched get_run octokit_issues_get_def respond_snd
        createJiraIssue_def applyJiraLabel_def closeIssue_def log_def write_output_def Let_def)
qed

lemma syncIssue_dry_output:
  assumes dry: "DRY_RUN e" and i: "issues w n = Some i" and u: "up (faults w)"
    and nokey: "getJiraKeyFromLabels (labels i) = None" and opn: "state i \<noteq> ''closed''"
    and b: "body i \<noteq> None" and ow: "truthy (GITHUB_OUTPUT e) \<longrightarrow> output_writable w"
  shows "output_file (snd (syncIssue rx e n w)) =
      output_file w @
      (if truthy (GITHUB_OUTPUT e) then [''jira_key='' @ JIRA_PROJECT_KEY e @ ''-DRY''] else [])"
proof -
  from b obtain m where m: "parseBody rx (body i) = Inr m"
    using parseBody_Inr by blast
  obtain d where d: "buildDescription i m = Inr d"
    using buildDescription_Inr by blast
  show ?thesis
    using assms m d truthy_getJiraKey [of "labels i"]
    by (simp add: syncIssue_fetched get_run octokit_issues_get_def respond_snd
        createJiraIssue_def applyJiraLabel_def closeIssue_def log_def write_output_def Let_def)
qed

lemma syncIssue_skip_any_env:
  assumes "issues w n = Some i" "up (faults w)"
    "getJiraKeyFromLabels (labels i) \<noteq> None \<or> state i = ''closed''"
  shows "syncIssue rx e n w = syncIssue rx e' n w"
  using assms truthy_getJiraKey [of "labels i"] by (auto simp: syncIssue_fetched Let_def)

text \<open>
  What a dry run does. Its only call is the fetch: no write is made, and the issues, the
  labels of the repository, the comments and the Jira issues stay as they were. The key it
  reports is the project key followed by \<open>-DRY\<close>, which has not the shape of a Jira key,
  whatever the project key. On an open issue without a sync label and with a body, when
  the file \<^verbatim>\<open>GITHUB_OUTPUT\<close> names can be written, the run returns synced with that key and
  the log shows every step: the type, priority and summary derived, the payload, the label
  and (when configured) the closing; the line for that file is still appended. On an issue
  that is already synced or closed the run is the one made without the dry-run flag.
\<close>

lemma syncIssue_dry_effects:
  "DRY_RUN e \<longrightarrow>
     writes (new_calls w (snd (syncIssue rx e n w))) = [] \<and>
     issues (snd (syncIssue rx e n w)) = issues w \<and>
     repo_labels (snd (syncIssue rx e n w)) = repo_labels w \<and>
     comments (snd (syncIssue rx e n w)) = comments w \<and>
     jira_created (snd (syncIssue rx e n w)) = jira_created w \<and>
     \<not> key_shape (JIRA_PROJECT_KEY e @ ''-DRY'') \<and>
     (issues w n = Some i \<and> up (faults w) \<and> no_sync_label (labels i) \<and>
      state i \<noteq> ''closed'' \<and> body i \<noteq> None \<and>
      (truthy (GITHUB_OUTPUT e) \<longrightarrow> output_writable w) \<longrightarrow>
        fst (syncIssue rx e n w) =
          Inr \<lparr>status = ''synced'', reason = None,
                jiraKey = Some (JIRA_PROJECT_KEY e @ ''-DRY'')\<rparr> \<and>
        new_calls w (snd (syncIssue rx e n w)) = [(IssuesGet n, True)] \<and>
        (\<exists>p. console (snd (syncIssue rx e n w)) =
           console w @
           [LogIssue n,
            LogCreating (deriveIssueType e (labels i)) (derivePriority (labels i))
              (jira_summary (title i)),
            LogDryRunJira, LogPayload p, LogCreated (JIRA_PROJECT_KEY e @ ''-DRY''),
            LogApplyingLabel (jira_label_name (JIRA_PROJECT_KEY e @ ''-DRY'')) n,
            LogDryRunLabel] @
           (if CLOSE_AFTER_SYNC e
            then [LogClosing n (JIRA_PROJECT_KEY e @ ''-DRY''), LogDryRunClose] else []) @
           [LogDone (JIRA_PROJECT_KEY e @ ''-DRY'')]) \<and>
        output_file (snd (syncIssue rx e n w)) =
          output_file w @
          (if truthy (GITHUB_OUTPUT e)
           then [''jira_key='' @ JIRA_PROJECT_KEY e @ ''-DRY''] else [])) \<and>
     (issues w n = Some i \<and> up (faults w) \<and>
      (getJiraKeyFromLabels (labels i) \<noteq> None \<or> state i = ''closed'') \<longrightarrow>
        syncIssue rx e n w = syncIssue rx (e\<lparr>DRY_RUN := False\<rparr>) n w)"
proof (intro impI conjI)
  assume dry: "DRY_RUN e"
  then obtain ok where c: "calls (snd (syncIssue rx e n w)) = calls w @ [(IssuesGet n, ok)]"
    and f: "issues (snd (syncIssue rx e n w)) = issues w"
    using syncIssue_read_only [of e w n rx] by blast
  from c show "writes (new_calls w (snd (syncIssue rx e n w))) = []"
    by (simp add: new_calls_def writes_def)
  from f show "issues (snd (syncIssue rx e n w)) = issues w" .
  from dry show "repo_labels (snd (syncIssue rx e n w)) = repo_labels w"
    and "comments (snd (syncIssue rx e n w)) = comments w"
    and "jira_created (snd (syncIssue rx e n w)) = jira_created w"
    by (rule syncIssue_dry_frame)+
  show "\<not> key_shape (JIRA_PROJECT_KEY e @ ''-DRY'')"
    by (rule placeholder_not_key)
  assume a: "issues w n = Some i \<and> up (faults w) \<and> no_sync_label (labels i) \<and>
      state i \<noteq> ''closed'' \<and> body i \<noteq> None \<and>
      (truthy (GITHUB_OUTPUT e) \<longrightarrow> output_writable w)"
  then have nokey: "getJiraKeyFromLabels (labels i) = None"
    by (simp add: getJiraKey_None)
  from a have ow: "truthy (GITHUB_OUTPUT e) \<longrightarrow> output_writable w"
    by simp
  from a nokey show "fst (syncIssue rx e n w) =
      Inr \<lparr>status = ''synced'', reason = None, jiraKey = Some (JIRA_PROJECT_KEY e @ ''-DRY'')\<rparr>"
    using syncIssue_dry(1) [OF dry, of w n i rx] by auto
  from a nokey show "new_calls w (snd (syncIssue rx e n w)) = [(IssuesGet n, True)]"
    using syncIssue_dry(2) [OF dry, of w n i rx] by (simp add: new_calls_def)
  from a nokey show "\<exists>p. console (snd (syncIssue rx e n w)) =
           console w @
           [LogIssue n,
            LogCreating (deriveIssueType e (labels i)) (derivePriority (labels i))
              (jira_summary (title i)),
            LogDryRunJira, LogPayload p, LogCreated (JIRA_PROJECT_KEY e @ ''-DRY''),
            LogApplyingLabel (jira_label_name (JIRA_PROJECT_KEY e @ ''-DRY'')) n,
            LogDryRunLabel] @
           (if CLOSE_AFTER_SYNC e
            then [LogClosing n (JIRA_PROJECT_KEY e @ ''-DRY''), LogDryRunClose] else []) @
           [LogDone (JIRA_PROJECT_KEY e @ ''-DRY'')]"
    using syncIssue_dry_console [OF dry _ _ _ _ _ ow, of n i rx] by simp
  from a nokey show "output_file (snd (syncIssue rx e n w)) =
          output_file w @
          (if truthy (GITHUB_OUTPUT e)
           then [''jira_key='' @ JIRA_PROJECT_KEY e @ ''-DRY''] else [])"
    using syncIssue_dry_output [OF dry _ _ _ _ _ ow, of n i rx] by simp
next
  assume "issues w n = Some i \<and> up (faults w) \<and>
      (getJiraKeyFromLabels (labels i) \<noteq> None \<or> state i = ''closed'')"
  then show "syncIssue rx e n w = syncIssue rx (e\<lparr>DRY_RUN := False\<rparr>) n w"
    using syncIssue_skip_any_env [of w n i rx e "e\<lparr>DRY_RUN := False\<rparr>"] by blast
qed

text \<open>The dry run on the small instance returns the placeholder key after the fetch alone.\<close>

lemma demo_dry_run:
  "fst (syncIssue no_match (demo_env\<lparr>DRY_RUN := True\<rparr>) 7 demo_world) =
     Inr \<lparr>status = ''synced'', reason = None, jiraKey = Some ''AB-DRY''\<rparr> \<and>
   new_calls demo_world (snd (syncIssue no_match (demo_env\<lparr>DRY_RUN := True\<rparr>) 7 demo_world)) =
     [(IssuesGet 7, True)]"
  by (simp add: demo_defs eval_defs is_upper_def)

text \<open>
  Claim C4. A dry run on an open issue without a sync label and without a body, which
  GitHub sends as \<^verbatim>\<open>null\<close>, returns no placeholder key: \<^verbatim>\<open>createJiraIssue\<close> calls \<^verbatim>\<open>parseBody\<close>
  before it tests \<^verbatim>\<open>DRY_RUN\<close>, so the run raises the \<^verbatim>\<open>TypeError\<close> right after the fetch, and
  none of the steps it would take is logged.
\<close>

theorem syncIssue_dry_run_null_body:
  "(let e' = e\<lparr>DRY_RUN := True\<rparr>;
        w' = w\<lparr>issues := (issues w)(n \<mapsto> i\<lparr>body := None, state := ''open'', labels := []\<rparr>),
               faults := []\<rparr>
    in fst (syncIssue rx e' n w') = Inl (Thrown TypeError) \<and>
       new_calls w' (snd (syncIssue rx e' n w')) = [(IssuesGet n, True)] \<and>
       console (snd (syncIssue rx e' n w')) = console w @ [LogIssue n])"
proof -
  let ?i = "i\<lparr>body := None, state := ''open'', labels := []\<rparr>"
  let ?w = "w\<lparr>issues := (issues w)(n \<mapsto> ?i), faults := []\<rparr>"
  let ?e = "e\<lparr>DRY_RUN := True\<rparr>"
  have h: "issues ?w n = Some ?i" "up (faults ?w)" "getJiraKeyFromLabels (labels ?i) = None"
    "state ?i \<noteq> ''closed''" "body ?i = None"
    by (simp_all add: up_def getJiraKeyFromLabels_def)
  have "console (snd (syncIssue rx ?e n ?w)) = console ?w @ [LogIssue n]"
    using h(3-5)
    by (simp add: syncIssue_fetched [OF h(1,2)] createJiraIssue_null_body get_run log_def
        truthy_def Let_def)
  with syncIssue_null_body(1,2) [OF h, of rx ?e] show ?thesis
    by (simp add: Let_def new_calls_def)
qed

section \<open>Bulk sync\<close>

text \<open>
  Every run fetches its issue once and logs no failure of the bulk loop; the loop over a
  page follows by induction on the page.
\<close>

lemma fetched_append: "fetched (xs @ ys) = fetched xs @ fetched ys"
  by (induction xs rule: fetched.induct) simp_all

lemma bulk_failures_append: "bulk_failures (xs @ ys) = bulk_failures xs @ bulk_failures ys"
  by (induction xs rule: bulk_failures.induct) simp_all

lemma syncIssue_fetches_once: "fetched (calls (snd (syncIssue rx e n w))) = fetched (calls w) @ [n]"
proof (cases "DRY_RUN e \<or> issues w n = None \<or> \<not> up (faults w) \<or>
    (\<exists>i. issues w n = Some i \<and>
       (getJiraKeyFromLabels (labels i) \<noteq> None \<or> state i = ''closed'' \<or> body i = None))")
  case True
  then obtain ok where "calls (snd (syncIssue rx e n w)) = calls w @ [(IssuesGet n, ok)]"
    using syncIssue_read_only [of e w n rx] by blast
  then show ?thesis by (simp add: fetched_append)
next
  case False
  then obtain i where i: "issues w n = Some i" and h: "\<not> DRY_RUN e" "up (faults w)"
    "getJiraKeyFromLabels (labels i) = None" "state i \<noteq> ''closed''" "body i \<noteq> None"
    by auto
  from syncIssue_written [OF h(1) i h(2-5), of rx]
  obtain p g c a cm x y where
    "calls (snd (syncIssue rx e n w)) =
      calls w @ (IssuesGet n, True) #
        (JiraRequest ''POST'' ''/issue'' p, up (tl (faults w))) #
        (if up (tl (faults w))
         then label_calls n (jira_keys w (length (jira_created w))) g c a @
              (if (g \<or> c) \<and> a \<and> CLOSE_AFTER_SYNC e then close_calls n cm x y else [])
         else [])"
    by blast
  then show ?thesis
    by (simp add: fetched_append label_calls_def close_calls_def)
qed

lemma step_failures:
  "bulk_failures (console (snd (octokit_issues_get n w))) = bulk_failures (console w)"
  "bulk_failures (console (snd (createJiraIssue rx e i w))) = bulk_failures (console w)"
  "bulk_failures (console (snd (applyJiraLabel e n k w))) = bulk_failures (console w)"
  "bulk_failures (console (snd (closeIssue e n k w))) = bulk_failures (console w)"
  by (simp_all add: createJiraIssue_def applyJiraLabel_def closeIssue_def ensureLabel_alt
      await_alt base_ops respond_fst respond_snd log_def Let_def bulk_failures_append
      split: sum.splits option.splits)

lemma syncIssue_failures:
  "bulk_failures (console (snd (syncIssue rx e n w))) = bulk_failures (console w)"
proof -
  have l: "\<And>l v. bulk_failures (console (log l v)) = bulk_failures (console v) @ bulk_failures [l]"
    by (simp add: log_def bulk_failures_append)
  have o: "\<And>k v. console (snd (write_output e k v)) = console v"
    by (simp add: write_output_def)
  show ?thesis
    by (simp add: syncIssue_def await_alt step_failures l o split: sum.splits)
qed

lemma bulkSync_page_step:
  "\<not> pull_request i \<Longrightarrow>
   bulkSync_page rx e (i # rest) s w =
     (case fst (syncIssue rx e (number i) w) of
        Inr result \<Rightarrow>
          if status result = ''synced''
          then bulkSync_page rx e rest (s\<lparr>synced := synced s + 1\<rparr>)
                 ((snd (syncIssue rx e (number i) w))\<lparr>slept := slept (snd (syncIssue rx e (number i) w)) + 400\<rparr>)
          else bulkSync_page rx e rest (s\<lparr>skipped := skipped s + 1\<rparr>)
                 (snd (syncIssue rx e (number i) w))
      | Inl err \<Rightarrow>
          bulkSync_page rx e rest (s\<lparr>failed := failed s + 1\<rparr>)
            (log (LogBulkFailed (number i) err) (snd (syncIssue rx e (number i) w))))"
  by (simp split: prod.splits sum.splits)

lemma bulkSync_page_counts:
  "synced (fst (bulkSync_page rx e page s w)) + skipped (fst (bulkSync_page rx e page s w)) +
     failed (fst (bulkSync_page rx e page s w)) =
   synced s + skipped s + failed s + length (filter (\<lambda>i. \<not> pull_request i) page)"
proof (induction page arbitrary: s w)
  case Nil
  show ?case by simp
next
  case (Cons i rest)
  show ?case
  proof (cases "pull_request i")
    case True
    then show ?thesis using Cons.IH [of s w] by simp
  next
    case False
    then show ?thesis
      by (simp add: bulkSync_page_step Cons.IH del: bulkSync_page.simps split: sum.splits)
  qed
qed

lemma bulkSync_page_fetched:
  "fetched (calls (snd (bulkSync_page rx e page s w))) =
   fetched (calls w) @ map number (filter (\<lambda>i. \<not> pull_request i) page)"
proof (induction page arbitrary: s w)
  case Nil
  show ?case by simp
next
  case (Cons i rest)
  show ?case
  proof (cases "pull_request i")
    case True
    then show ?thesis using Cons.IH [of s w] by simp
  next
    case False
    then show ?thesis
      by (simp add: bulkSync_page_step Cons.IH syncIssue_fetches_once log_def
          del: bulkSync_page.simps split: sum.splits)
  qed
qed

lemma bulkSync_page_logged:
  "length (bulk_failures (console (snd (bulkSync_page rx e page s w)))) + failed s =
   length (bulk_failures (console w)) + failed (fst (bulkSync_page rx e page s w))"
proof (induction page arbitrary: s w)
  case Nil
  show ?case by simp
next
  case (Cons i rest)
  show ?case
  proof (cases "pull_request i")
    case True
    then show ?thesis using Cons.IH [of s w] by simp
  next
    case False
    show ?thesis
    proof (cases "fst (syncIssue rx e (number i) w)")
      case (Inl err)
      with False Cons.IH [of "s\<lparr>failed := failed s + 1\<rparr>"
          "log (LogBulkFailed (number i) err) (snd (syncIssue rx e (number i) w))"]
      show ?thesis
        by (simp add: bulkSync_page_step log_def bulk_failures_append syncIssue_failures
            del: bulkSync_page.simps)
    next
      case (Inr result)
      with False Cons.IH [of "s\<lparr>synced := synced s + 1\<rparr>"
          "(snd (syncIssue rx e (number i) w))\<lparr>slept := slept (snd (syncIssue rx e (number i) w)) + 400\<rparr>"]
        Cons.IH [of "s\<lparr>skipped := skipped s + 1\<rparr>" "snd (syncIssue rx e (number i) w)"]
      show ?thesis
        by (simp add: bulkSync_page_step syncIssue_failures del: bulkSync_page.simps)
    qed
  qed
qed

lemma bulkSync_pages_error:
  "fst (bulkSync_pages rx e page s w) = Inl err \<Longrightarrow> \<exists>p. err = RequestFailed (IssuesListForRepo p)"
proof (induction rx e page s w rule: bulkSync_pages.induct)
  case (1 rx e page s w)
  show ?case
  proof (cases "fst (octokit_issues_listForRepo page w)")
    case (Inl err')
    with "1.prems" have "err = err'"
      by (subst (asm) bulkSync_pages.simps) (simp split: prod.splits)
    with Inl show ?thesis
      by (auto simp: octokit_issues_listForRepo_def respond_fst split: if_splits)
  next
    case (Inr found)
    show ?thesis
    proof (cases "found = [] \<or> length found < 100")
      case True
      with Inr "1.prems" show ?thesis
        by (subst (asm) bulkSync_pages.simps) (auto split: prod.splits if_splits)
    next
      case False
      obtain s' w2 where p: "bulkSync_page rx e found s (snd (octokit_issues_listForRepo page w)) = (s', w2)"
        by (cases "bulkSync_page rx e found s (snd (octokit_issues_listForRepo page w))")
      from False Inr p "1.prems" have "fst (bulkSync_pages rx e (page + 1) s' w2) = Inl err"
        by (subst (asm) bulkSync_pages.simps) (auto split: prod.splits if_splits)
      moreover have "(fst (octokit_issues_listForRepo page w), snd (octokit_issues_listForRepo page w)) =
          octokit_issues_listForRepo page w" by simp
      ultimately show ?thesis
        using "1.IH" [OF _ Inr _ p [symmetric]] False by auto
    qed
  qed
qed

text \<open>The whole run: the listing is not changed by the script, so the pages read are its pages.\<close>

lemma step_listing:
  "listing (snd (octokit_issues_get n w)) = listing w"
  "listing (snd (createJiraIssue rx e i w)) = listing w"
  "listing (snd (applyJiraLabel e n k w)) = listing w"
  "listing (snd (closeIssue e n k w)) = listing w"
  "listing (log l w) = listing w"
  "listing (snd (write_output e k w)) = listing w"
  by (simp_all add: createJiraIssue_def applyJiraLabel_def closeIssue_def ensureLabel_alt
      await_alt base_ops respond_fst respond_snd log_def write_output_def Let_def
      split: sum.splits option.splits)

lemma syncIssue_listing: "listing (snd (syncIssue rx e n w)) = listing w"
  by (simp add: syncIssue_def await_alt step_listing split: sum.splits)

lemma bulkSync_page_listing: "listing (snd (bulkSync_page rx e page s w)) = listing w"
proof (induction page arbitrary: s w)
  case Nil
  show ?case by simp
next
  case (Cons i rest)
  show ?case
  proof (cases "pull_request i")
    case True
    then show ?thesis using Cons.IH [of s w] by simp
  next
    case False
    then show ?thesis
      by (simp add: bulkSync_page_step Cons.IH syncIssue_listing step_listing
          del: bulkSync_page.simps split: sum.splits)
  qed
qed

lemma listForRepo_run:
  "fst (octokit_issues_listForRepo page w) = Inr found \<Longrightarrow>
   found = (if 1 \<le> page \<and> page \<le> length (listing w) then listing w ! (page - 1) else [])"
  "listing (snd (octokit_issues_listForRepo page w)) = listing w"
  "fetched (calls (snd (octokit_issues_listForRepo page w))) = fetched (calls w)"
  by (auto simp: octokit_issues_listForRepo_def respond_fst respond_snd fetched_append
      split: if_splits)

lemma bulkSync_pages_unfold:
  "bulkSync_pages rx e page s w =
     (case fst (octokit_issues_listForRepo page w) of
        Inl err \<Rightarrow> (Inl err, snd (octokit_issues_listForRepo page w))
      | Inr found \<Rightarrow>
          if found = [] then (Inr s, snd (octokit_issues_listForRepo page w))
          else if length found < 100
          then (Inr (fst (bulkSync_page rx e found s (snd (octokit_issues_listForRepo page w)))),
                snd (bulkSync_page rx e found s (snd (octokit_issues_listForRepo page w))))
          else bulkSync_pages rx e (page + 1)
                 (fst (bulkSync_page rx e found s (snd (octokit_issues_listForRepo page w))))
                 (snd (bulkSync_page rx e found s (snd (octokit_issues_listForRepo page w)))))"
  by (subst bulkSync_pages.simps) (simp split: prod.splits sum.splits)

lemma pages_read_drop:
  assumes "1 \<le> page" "page \<le> length ps"
  shows "drop (page - 1) ps = ps ! (page - 1) # drop page ps"
proof -
  from assms have "page - 1 < length ps" by arith
  then have "drop (page - 1) ps = ps ! (page - 1) # drop (Suc (page - 1)) ps"
    by (simp add: Cons_nth_drop_Suc)
  with assms show ?thesis by simp
qed

lemma bulkSync_pages_result:
  "1 \<le> page \<Longrightarrow> fst (bulkSync_pages rx e page s w) = Inr s' \<Longrightarrow>
   synced s' + skipped s' + failed s' =
     synced s + skipped s + failed s +
     length (filter (\<lambda>i. \<not> pull_request i) (concat (pages_read (drop (page - 1) (listing w))))) \<and>
   fetched (calls (snd (bulkSync_pages rx e page s w))) =
     fetched (calls w) @
     map number (filter (\<lambda>i. \<not> pull_request i) (concat (pages_read (drop (page - 1) (listing w)))))"
proof (induction rx e page s w rule: bulkSync_pages.induct)
  case (1 rx e page s w)
  let ?L = "octokit_issues_listForRepo page w"
  note U = bulkSync_pages_unfold [of rx e page s w]
  show ?case
  proof (cases "fst ?L")
    case (Inl err)
    with U "1.prems" show ?thesis by simp
  next
    case (Inr found)
    note f = listForRepo_run(1) [OF Inr]
    show ?thesis
    proof (cases "found = []")
      case True
      have "pages_read (drop (page - 1) (listing w)) = []"
      proof (cases "page \<le> length (listing w)")
        case le: True
        with f True "1.prems"(1) pages_read_drop [of page "listing w"] show ?thesis by simp
      next
        case False
        then show ?thesis by simp
      qed
      moreover from U True Inr have "bulkSync_pages rx e page s w = (Inr s, snd ?L)"
        by simp
      ultimately show ?thesis
        using "1.prems" by (simp add: listForRepo_run)
    next
      case ne: False
      with f "1.prems"(1) have le: "page \<le> length (listing w)" and nth: "listing w ! (page - 1) = found"
        by (auto split: if_splits)
      note d = pages_read_drop [OF "1.prems"(1) le, unfolded nth]
      let ?P = "bulkSync_page rx e found s (snd ?L)"
      have cnt: "synced (fst ?P) + skipped (fst ?P) + failed (fst ?P) =
          synced s + skipped s + failed s + length (filter (\<lambda>i. \<not> pull_request i) found)"
        by (rule bulkSync_page_counts)
      have fet: "fetched (calls (snd ?P)) =
          fetched (calls w) @ map number (filter (\<lambda>i. \<not> pull_request i) found)"
        by (simp add: bulkSync_page_fetched listForRepo_run)
      show ?thesis
      proof (cases "length found < 100")
        case True
        with U ne Inr have "bulkSync_pages rx e page s w = (Inr (fst ?P), snd ?P)"
          by simp
        with True ne "1.prems" cnt fet d show ?thesis
          by auto
      next
        case False
        have lst: "listing (snd ?P) = listing w"
          by (simp add: bulkSync_page_listing listForRepo_run)
        from U False ne Inr have V: "bulkSync_pages rx e page s w =
            bulkSync_pages rx e (page + 1) (fst ?P) (snd ?P)"
          by simp
        with "1.prems" have r: "fst (bulkSync_pages rx e (page + 1) (fst ?P) (snd ?P)) = Inr s'"
          by simp
        have p1: "(fst ?L, snd ?L) = ?L" and p2: "(fst ?P, snd ?P) = ?P" and p3: "1 \<le> page + 1"
          by simp_all
        from "1.IH" [OF p1 Inr ne p2 False p3 r]
        have "synced s' + skipped s' + failed s' =
            synced (fst ?P) + skipped (fst ?P) + failed (fst ?P) +
            length (filter (\<lambda>i. \<not> pull_request i) (concat (pages_read (drop page (listing w))))) \<and>
          fetched (calls (snd (bulkSync_pages rx e (page + 1) (fst ?P) (snd ?P)))) =
            fetched (calls (snd ?P)) @
            map number (filter (\<lambda>i. \<not> pull_request i) (concat (pages_read (drop page (listing w)))))"
          by (simp add: lst)
        with False ne cnt fet d V show ?thesis
          by simp
      qed
    qed
  qed
qed

text \<open>
  Claim C9. In the loop over a page, an issue whose processing raises is counted as failed
  and logged, and the loop goes on with the rest of the page; a pull request is passed
  over. Whatever fails, every entry that is not a pull request is fetched, in the order of
  the page, and only those; the three counts grow together by the number of such entries;
  the failures logged are as many as the failures counted. A bulk run raises only when a
  listing call fails; when it returns, its counts add up to the entries of the pages read
  that are not pull requests, and each of them was fetched.
\<close>

theorem bulkSync_isolation:
  "(\<not> pull_request i \<and> fst (syncIssue rx e (number i) w) = Inl err \<longrightarrow>
      bulkSync_page rx e (i # rest) s w =
        bulkSync_page rx e rest (s\<lparr>failed := failed s + 1\<rparr>)
          (log (LogBulkFailed (number i) err) (snd (syncIssue rx e (number i) w)))) \<and>
   (pull_request i \<longrightarrow> bulkSync_page rx e (i # rest) s w = bulkSync_page rx e rest s w) \<and>
   synced (fst (bulkSync_page rx e page s w)) + skipped (fst (bulkSync_page rx e page s w)) +
     failed (fst (bulkSync_page rx e page s w)) =
     synced s + skipped s + failed s + length (filter (\<lambda>i. \<not> pull_request i) page) \<and>
   fetched (calls (snd (bulkSync_page rx e page s w))) =
     fetched (calls w) @ map number (filter (\<lambda>i. \<not> pull_request i) page) \<and>
   length (bulk_failures (console (snd (bulkSync_page rx e page s w)))) + failed s =
     length (bulk_failures (console w)) + failed (fst (bulkSync_page rx e page s w)) \<and>
   (fst (bulkSync rx e w) = Inl err' \<longrightarrow> (\<exists>p. err' = RequestFailed (IssuesListForRepo p))) \<and>
   (fst (bulkSync rx e w) = Inr res \<longrightarrow>
      synced res + skipped res + failed res =
        length (filter (\<lambda>i. \<not> pull_request i) (concat (pages_read (listing w)))) \<and>
      fetched (calls (snd (bulkSync rx e w))) =
        fetched (calls w) @
        map number (filter (\<lambda>i. \<not> pull_request i) (concat (pages_read (listing w)))))"
proof (intro conjI impI)
  assume "\<not> pull_request i \<and> fst (syncIssue rx e (number i) w) = Inl err"
  then show "bulkSync_page rx e (i # rest) s w =
        bulkSync_page rx e rest (s\<lparr>failed := failed s + 1\<rparr>)
          (log (LogBulkFailed (number i) err) (snd (syncIssue rx e (number i) w)))"
    by (simp add: bulkSync_page_step del: bulkSync_page.simps)
next
  assume "pull_request i"
  then show "bulkSync_page rx e (i # rest) s w = bulkSync_page rx e rest s w"
    by simp
next
  show "synced (fst (bulkSync_page rx e page s w)) + skipped (fst (bulkSync_page rx e page s w)) +
     failed (fst (bulkSync_page rx e page s w)) =
     synced s + skipped s + failed s + length (filter (\<lambda>i. \<not> pull_request i) page)"
    by (rule bulkSync_page_counts)
next
  show "fetched (calls (snd (bulkSync_page rx e page s w))) =
     fetched (calls w) @ map number (filter (\<lambda>i. \<not> pull_request i) page)"
    by (rule bulkSync_page_fetched)
next
  show "length (bulk_failures (console (snd (bulkSync_page rx e page s w)))) + failed s =
     length (bulk_failures (console w)) + failed (fst (bulkSync_page rx e page s w))"
    by (rule bulkSync_page_logged)
next
  assume "fst (bulkSync rx e w) = Inl err'"
  then show "\<exists>p. err' = RequestFailed (IssuesListForRepo p)"
    unfolding bulkSync_def by (rule bulkSync_pages_error)
next
  assume r: "fst (bulkSync rx e w) = Inr res"
  have "(1::nat) \<le> 1" by simp
  from bulkSync_pages_result [OF this r [unfolded bulkSync_def]]
  show "synced res + skipped res + failed res =
        length (filter (\<lambda>i. \<not> pull_request i) (concat (pages_read (listing w))))"
    and "fetched (calls (snd (bulkSync rx e w))) =
        fetched (calls w) @
        map number (filter (\<lambda>i. \<not> pull_request i) (concat (pages_read (listing w))))"
    by (simp_all add: bulkSync_def step_listing)
qed

lemma demo_missing_fails:
  "fst (syncIssue no_match demo_env 8 demo_world) = Inl (RequestFailed (IssuesGet 8))"
  by (simp add: demo_defs eval_defs)

lemma demo_listing_fails:
  "fst (bulkSync no_match demo_env (demo_world\<lparr>faults := [True]\<rparr>)) =
     Inl (RequestFailed (IssuesListForRepo 1))"
  by (subst bulkSync_def, subst bulkSync_pages.simps)
     (simp add: demo_defs octokit_issues_listForRepo_def respond_def log_def up_def Let_def)

lemma demo_bulk_result:
  "fst (bulkSync no_match demo_env demo_world) = Inr \<lparr>synced = 1, skipped = 0, failed = 0\<rparr>"
  by (subst bulkSync_def, subst bulkSync_pages.simps)
     (simp add: demo_defs eval_defs octokit_issues_listForRepo_def is_upper_def)

lemma demo_page_result:
  "fst (bulkSync_page no_match demo_env demo_page \<lparr>synced = 0, skipped = 0, failed = 0\<rparr> demo_world) =
     \<lparr>synced = 1, skipped = 0, failed = 1\<rparr>"
  by (simp add: demo_page_def demo_defs eval_defs is_upper_def)

theorem bulkSync_isolation_witness:
  "bulkSync_page no_match demo_env (demo_issue\<lparr>number := 8\<rparr> # [demo_issue])
       \<lparr>synced = 0, skipped = 0, failed = 0\<rparr> demo_world =
     bulkSync_page no_match demo_env [demo_issue] \<lparr>synced = 0, skipped = 0, failed = 1\<rparr>
       (log (LogBulkFailed 8 (RequestFailed (IssuesGet 8)))
          (snd (syncIssue no_match demo_env 8 demo_world))) \<and>
   bulkSync_page no_match demo_env demo_page \<lparr>synced = 0, skipped = 0, failed = 0\<rparr> demo_world =
     bulkSync_page no_match demo_env (tl demo_page) \<lparr>synced = 0, skipped = 0, failed = 0\<rparr> demo_world \<and>
   fst (bulkSync_page no_match demo_env demo_page \<lparr>synced = 0, skipped = 0, failed = 0\<rparr> demo_world) =
     \<lparr>synced = 1, skipped = 0, failed = 1\<rparr> \<and>
   fetched (calls (snd (bulkSync_page no_match demo_env demo_page
       \<lparr>synced = 0, skipped = 0, failed = 0\<rparr> demo_world))) = [8, 7] \<and>
   length (bulk_failures (console (snd (bulkSync_page no_match demo_env demo_page
       \<lparr>synced = 0, skipped = 0, failed = 0\<rparr> demo_world)))) = 1 \<and>
   fst (bulkSync no_match demo_env (demo_world\<lparr>faults := [True]\<rparr>)) =
     Inl (RequestFailed (IssuesListForRepo 1)) \<and>
   fst (bulkSync no_match demo_env demo_world) = Inr \<lparr>synced = 1, skipped = 0, failed = 0\<rparr> \<and>
   fetched (calls (snd (bulkSync no_match demo_env demo_world))) = [7]"
proof -
  let ?z = "\<lparr>synced = 0, skipped = 0, failed = 0\<rparr>"
  have h: "\<not> pull_request (demo_issue\<lparr>number := 8\<rparr>)" "number (demo_issue\<lparr>number := 8\<rparr>) = 8"
    "pull_request (demo_issue\<lparr>number := 9, pull_request := True\<rparr>)"
    "calls demo_world = []" "console demo_world = []"
    "map number (filter (\<lambda>i. \<not> pull_request i) demo_page) = [8, 7]"
    by (simp_all add: demo_defs demo_page_def)
  have pg: "demo_issue\<lparr>number := 9, pull_request := True\<rparr> # tl demo_page = demo_page"
    by (simp add: demo_page_def)
  note T = bulkSync_isolation
      [of "demo_issue\<lparr>number := 8\<rparr>" no_match demo_env demo_world "RequestFailed (IssuesGet 8)"
        "[demo_issue]" ?z demo_page "RequestFailed (IssuesListForRepo 1)"
        "\<lparr>synced = 1, skipped = 0, failed = 0\<rparr>"]
  note P = bulkSync_isolation
      [of "demo_issue\<lparr>number := 9, pull_request := True\<rparr>" no_match demo_env
        "demo_world\<lparr>faults := [True]\<rparr>" "RequestFailed (IssuesGet 8)"
        "tl demo_page" ?z demo_page "RequestFailed (IssuesListForRepo 1)" ?z]
  note Q = bulkSync_isolation
      [of "demo_issue\<lparr>number := 9, pull_request := True\<rparr>" no_match demo_env
        demo_world "RequestFailed (IssuesGet 8)"
        "tl demo_page" ?z demo_page "RequestFailed (IssuesListForRepo 1)" ?z]
  have c1: "bulkSync_page no_match demo_env (demo_issue\<lparr>number := 8\<rparr> # [demo_issue]) ?z demo_world =
     bulkSync_page no_match demo_env [demo_issue] \<lparr>synced = 0, skipped = 0, failed = 1\<rparr>
       (log (LogBulkFailed 8 (RequestFailed (IssuesGet 8)))
          (snd (syncIssue no_match demo_env 8 demo_world)))"
    using T [THEN conjunct1] h demo_missing_fails
    by (simp del: bulkSync_page.simps)
  have c2: "bulkSync_page no_match demo_env demo_page ?z demo_world =
     bulkSync_page no_match demo_env (tl demo_page) ?z demo_world"
    using Q [THEN conjunct2, THEN conjunct1] h(3)
    by (simp add: pg del: bulkSync_page.simps)
  have c4: "fetched (calls (snd (bulkSync_page no_match demo_env demo_page ?z demo_world))) = [8, 7]"
    using T [THEN conjunct2, THEN conjunct2, THEN conjunct2, THEN conjunct1] h
    by (simp del: bulkSync_page.simps)
  have c5: "length (bulk_failures (console (snd (bulkSync_page no_match demo_env demo_page
       ?z demo_world)))) = 1"
    using T [THEN conjunct2, THEN conjunct2, THEN conjunct2, THEN conjunct2, THEN conjunct1]
      h demo_page_result
    by (simp del: bulkSync_page.simps)
  have c6: "\<exists>p. RequestFailed (IssuesListForRepo 1) = RequestFailed (IssuesListForRepo p)"
    using P [THEN conjunct2, THEN conjunct2, THEN conjunct2, THEN conjunct2, THEN conjunct2]
      demo_listing_fails
    by (simp del: bulkSync_page.simps)
  have c7: "fetched (calls (snd (bulkSync no_match demo_env demo_world))) = [7]"
    using T [THEN conjunct2, THEN conjunct2, THEN conjunct2, THEN conjunct2, THEN conjunct2,
        THEN conjunct2] demo_bulk_result h
    by (simp add: demo_defs del: bulkSync_page.simps)
  from c1 c2 c4 c5 c6 c7 demo_page_result demo_listing_fails demo_bulk_result show ?thesis
    by (simp del: bulkSync_page.simps)
qed

end
